theory Spec2Isabelle
  imports Complex_Main
begin

section \<open>Photon annotation of HST time-tag data (\<^verbatim>\<open>hst/spectrify.py\<close>)\<close>

text \<open>
  The module is Python 2 code (it indexes the result of \<^verbatim>\<open>map\<close>, and divides header
  integers with \<^verbatim>\<open>/\<close>), built on numpy and scipy. The embedding follows the source
  function by function. Exceptions are values of the type \<open>error\<close>; a function that may
  raise returns \<open>error + 'a\<close> with \<open>Inl\<close> for the exception.
\<close>

datatype error =
    KeyError | IndexError | TypeError | ValueError | ZeroDivisionError
  | UnboundLocalError | NotImplementedError | LinAlgError

definition ebind :: "error + 'a \<Rightarrow> ('a \<Rightarrow> error + 'b) \<Rightarrow> error + 'b" where
  "ebind m f = (case m of Inl e \<Rightarrow> Inl e | Inr v \<Rightarrow> f v)"

fun emap :: "('a \<Rightarrow> error + 'b) \<Rightarrow> 'a list \<Rightarrow> error + 'b list" where
  "emap f [] = Inr []"
| "emap f (x # xs) = ebind (f x) (\<lambda>v. ebind (emap f xs) (\<lambda>vs. Inr (v # vs)))"

subsection \<open>numpy floating-point values\<close>

text \<open>
  A numpy \<^verbatim>\<open>float64\<close> is a finite value, an infinity or the undefined sentinel NaN.
  Finite values are exact rationals here: rounding, overflow and the sign of zero are
  not modelled (\<open>Fin 0\<close> stands for \<^verbatim>\<open>+0.0\<close>). The special values follow IEEE 754 as
  numpy applies it: arithmetic never raises, a division by zero gives an infinity or
  NaN, and every comparison with NaN is false.
\<close>

datatype npfloat = Fin rat | PInf | NInf | NaN

fun np_neg :: "npfloat \<Rightarrow> npfloat" where
  "np_neg (Fin a) = Fin (- a)"
| "np_neg PInf = NInf"
| "np_neg NInf = PInf"
| "np_neg NaN = NaN"

fun np_add :: "npfloat \<Rightarrow> npfloat \<Rightarrow> npfloat" where
  "np_add (Fin a) (Fin b) = Fin (a + b)"
| "np_add (Fin a) PInf = PInf"
| "np_add (Fin a) NInf = NInf"
| "np_add PInf (Fin b) = PInf"
| "np_add PInf PInf = PInf"
| "np_add PInf NInf = NaN"
| "np_add NInf (Fin b) = NInf"
| "np_add NInf PInf = NaN"
| "np_add NInf NInf = NInf"
| "np_add NaN b = NaN"
| "np_add a NaN = NaN"

definition np_sub :: "npfloat \<Rightarrow> npfloat \<Rightarrow> npfloat" where
  "np_sub a b = np_add a (np_neg b)"

fun np_mul :: "npfloat \<Rightarrow> npfloat \<Rightarrow> npfloat" where
  "np_mul (Fin a) (Fin b) = Fin (a * b)"
| "np_mul (Fin a) PInf = (if a = 0 then NaN else if 0 < a then PInf else NInf)"
| "np_mul (Fin a) NInf = (if a = 0 then NaN else if 0 < a then NInf else PInf)"
| "np_mul PInf (Fin b) = (if b = 0 then NaN else if 0 < b then PInf else NInf)"
| "np_mul NInf (Fin b) = (if b = 0 then NaN else if 0 < b then NInf else PInf)"
| "np_mul PInf PInf = PInf"
| "np_mul PInf NInf = NInf"
| "np_mul NInf PInf = NInf"
| "np_mul NInf NInf = PInf"
| "np_mul NaN b = NaN"
| "np_mul a NaN = NaN"

fun np_div :: "npfloat \<Rightarrow> npfloat \<Rightarrow> npfloat" where
  "np_div (Fin a) (Fin b) =
     (if b \<noteq> 0 then Fin (a / b)
      else if a = 0 then NaN else if 0 < a then PInf else NInf)"
| "np_div (Fin a) PInf = Fin 0"
| "np_div (Fin a) NInf = Fin 0"
| "np_div PInf (Fin b) = (if 0 \<le> b then PInf else NInf)"
| "np_div NInf (Fin b) = (if 0 \<le> b then NInf else PInf)"
| "np_div PInf PInf = NaN"
| "np_div PInf NInf = NaN"
| "np_div NInf PInf = NaN"
| "np_div NInf NInf = NaN"
| "np_div NaN b = NaN"
| "np_div a NaN = NaN"

fun np_abs :: "npfloat \<Rightarrow> npfloat" where
  "np_abs (Fin a) = Fin \<bar>a\<bar>"
| "np_abs PInf = PInf"
| "np_abs NInf = PInf"
| "np_abs NaN = NaN"

fun np_lt :: "npfloat \<Rightarrow> npfloat \<Rightarrow> bool" where
  "np_lt (Fin a) (Fin b) = (a < b)"
| "np_lt (Fin a) PInf = True"
| "np_lt NInf (Fin b) = True"
| "np_lt NInf PInf = True"
| "np_lt a b = False"

definition np_le :: "npfloat \<Rightarrow> npfloat \<Rightarrow> bool" where
  "np_le a b = (np_lt a b \<or> (a = b \<and> a \<noteq> NaN))"

definition np_gt :: "npfloat \<Rightarrow> npfloat \<Rightarrow> bool" where
  "np_gt a b = np_lt b a"

definition np_ge :: "npfloat \<Rightarrow> npfloat \<Rightarrow> bool" where
  "np_ge a b = np_le b a"

subsection \<open>\<^verbatim>\<open>numpy.argmin\<close>\<close>

text \<open>
  numpy's \<^verbatim>\<open>argmin\<close> on floats scans from the left, keeps the first minimum and treats
  NaN as minimal: the index of the first NaN is returned when there is one. An empty
  sequence raises \<^verbatim>\<open>ValueError\<close>. \<open>argmin_loop vs i mp mi\<close> is the scan at position
  \<open>i\<close> with running minimum \<open>mp\<close> found at index \<open>mi\<close>; its test is the negated
  \<^verbatim>\<open>>=\<close> of the C loop.
\<close>

fun argmin_loop :: "npfloat list \<Rightarrow> nat \<Rightarrow> npfloat \<Rightarrow> nat \<Rightarrow> nat" where
  "argmin_loop [] i mp mi = mi"
| "argmin_loop (v # vs) i mp mi =
     (if \<not> np_ge v mp
      then (if v = NaN then i else argmin_loop vs (Suc i) v i)
      else argmin_loop vs (Suc i) mp mi)"

fun np_argmin :: "npfloat list \<Rightarrow> error + nat" where
  "np_argmin [] = Inl ValueError"
| "np_argmin (v # vs) = Inr (if v = NaN then 0 else argmin_loop vs 1 v 0)"

text \<open>
  \<^verbatim>\<open>argmin(a, 0)\<close> of a two-dimensional array, given as the list of its rows with \<open>n\<close>
  columns: one index per column.
\<close>

definition column :: "'a list list \<Rightarrow> nat \<Rightarrow> 'a list" where
  "column rows i = map (\<lambda>r. r ! i) rows"

definition argmin_axis0 :: "npfloat list list \<Rightarrow> nat \<Rightarrow> error + nat list" where
  "argmin_axis0 rows n =
     (if rows = [] then Inl ValueError
      else emap (\<lambda>i. np_argmin (column rows i)) [0..<n])"

text \<open>The fancy index \<^verbatim>\<open>a[idx, arange(n)]\<close>: element \<open>idx ! i\<close> of column \<open>i\<close>.\<close>

definition pick_rows :: "'a list list \<Rightarrow> nat list \<Rightarrow> 'a list" where
  "pick_rows rows idx = map (\<lambda>i. rows ! (idx ! i) ! i) [0..<length idx]"

subsection \<open>FITS headers and tables\<close>

text \<open>
  A header is a Python mapping from keyword to value; a missing keyword raises
  \<^verbatim>\<open>KeyError\<close>. A value is an integer, a float or a string. \<open>hval_num\<close> is the use
  of a value in float arithmetic (a string raises \<^verbatim>\<open>TypeError\<close>); \<open>py2_div\<close> is
  Python 2's \<^verbatim>\<open>/\<close>, which floors when both operands are integers.
\<close>

datatype hval = HInt int | HFlt rat | HStr string

type_synonym header = "string \<Rightarrow> hval option"

definition hget :: "header \<Rightarrow> string \<Rightarrow> error + hval" where
  "hget h k = (case h k of None \<Rightarrow> Inl KeyError | Some v \<Rightarrow> Inr v)"

fun hval_num :: "hval \<Rightarrow> error + rat" where
  "hval_num (HInt i) = Inr (of_int i)"
| "hval_num (HFlt r) = Inr r"
| "hval_num (HStr s) = Inl TypeError"

fun py2_div :: "hval \<Rightarrow> hval \<Rightarrow> error + hval" where
  "py2_div (HInt a) (HInt b) =
     (if b = 0 then Inl ZeroDivisionError else Inr (HInt (a div b)))"
| "py2_div (HInt a) (HFlt b) =
     (if b = 0 then Inl ZeroDivisionError else Inr (HFlt (of_int a / b)))"
| "py2_div (HFlt a) (HInt b) =
     (if b = 0 then Inl ZeroDivisionError else Inr (HFlt (a / of_int b)))"
| "py2_div (HFlt a) (HFlt b) =
     (if b = 0 then Inl ZeroDivisionError else Inr (HFlt (a / b)))"
| "py2_div a b = Inl TypeError"

text \<open>\<^verbatim>\<open>s[-1]\<close> of a header value: the last character of a string.\<close>

fun last_char :: "hval \<Rightarrow> error + char" where
  "last_char (HStr s) = (if s = [] then Inl IndexError else Inr (last s))"
| "last_char v = Inl TypeError"

text \<open>
  An array handed to the column writer is a float array or an integer array. A table
  unit (HDU) has a name, a header and its rows; \<open>newcols\<close> are the columns appended to
  it, each with its name and FITS type code. The rows of an event table are records
  of the columns the annotators read: \<^verbatim>\<open>time\<close> for both instruments, \<^verbatim>\<open>xfull\<close>,
  \<^verbatim>\<open>yfull\<close>, \<^verbatim>\<open>wavelength\<close> (floats) for COS and the raw pixel coordinates \<^verbatim>\<open>axis1\<close>,
  \<^verbatim>\<open>axis2\<close> (integers) for STIS. A column \<^verbatim>\<open>td['c']\<close> is \<open>map c (data t)\<close>, so all
  columns of a table have its row count.
\<close>

datatype col = FloatCol "npfloat list" | IntCol "int list"

record event =
  time :: rat

record cos_event = event +
  xfull :: rat
  yfull :: rat
  wavelength :: rat

record stis_event = event +
  axis1 :: int
  axis2 :: int

record 'e hdu =
  name :: string
  header :: header
  data :: "'e list"
  newcols :: "(string \<times> string \<times> col) list"

text \<open>
  Modelled from the spec: \<^verbatim>\<open>append_cols\<close> of the module \<^verbatim>\<open>x1dutils\<close>, which is not
  among the sources. The spec: "returns a new/updated table with the named arrays
  attached; must preserve row order and count".
\<close>

definition append_cols ::
  "'e hdu \<Rightarrow> string list \<Rightarrow> string list \<Rightarrow> col list \<Rightarrow> 'e hdu" where
  "append_cols t names dtypes arrays =
     t\<lparr>newcols := newcols t @ zip names (zip dtypes arrays)\<rparr>"

subsection \<open>External collaborators\<close>

text \<open>
  What the module calls and does not define is a parameter of the model:
  \<^item> \<open>computeEperA\<close>, the flux function returned by \<^verbatim>\<open>x1dutils.x1d_epera_solution\<close>
    (wavelengths and, optionally, an order array); it is taken to return;
  \<^item> \<open>polyfit\<close>, \<^verbatim>\<open>numpy.polyfit(x, y, 1, w=w)\<close>, giving slope and intercept or raising;
  \<^item> \<open>rng_seed\<close> and \<open>rng_draw\<close>, the process-wide generator of \<^verbatim>\<open>numpy.random\<close>:
    the state a seed sets, and one draw of \<^verbatim>\<open>random()\<close> with the state after it;
  \<^item> \<open>invalid_int\<close>, the integer the platform stores when a float that is no number is
    cast to an integer array.
\<close>

record 's ext =
  computeEperA :: "npfloat list \<Rightarrow> col option \<Rightarrow> npfloat list"
  polyfit :: "rat list \<Rightarrow> npfloat list \<Rightarrow> npfloat list \<Rightarrow> error + (npfloat \<times> npfloat)"
  rng_seed :: "nat \<Rightarrow> 's"
  rng_draw :: "'s \<Rightarrow> rat \<times> 's"
  invalid_int :: int

subsection \<open>\<^verbatim>\<open>numpy.arange\<close> and \<^verbatim>\<open>scipy.interpolate.interp1d\<close>\<close>

definition arange :: "rat \<Rightarrow> rat \<Rightarrow> rat \<Rightarrow> error + rat list" where
  "arange start stop step =
     (if step = 0 then Inl ZeroDivisionError
      else Inr (map (\<lambda>k. start + of_nat k * step) [0..<nat \<lceil>(stop - start) / step\<rceil>]))"

text \<open>
  \<^verbatim>\<open>interp1d(x, y, kind, bounds_error=False, fill_value=nan)\<close> keeps the grid and the
  values, after checking that they have the same length and at least two entries. A
  call first marks the queries below \<^verbatim>\<open>x[0]\<close> or above \<^verbatim>\<open>x[-1]\<close>, evaluates, and
  overwrites the marked results with the fill value. \<open>searchsorted\<close> is numpy's binary
  search with \<^verbatim>\<open>side='left'\<close> on an ascending array: the number of entries below the
  query.
\<close>

datatype kind = Linear | Nearest

record interpolant =
  ip_x :: "rat list"
  ip_y :: "rat list"
  ip_kind :: kind

definition interp1d :: "rat list \<Rightarrow> rat list \<Rightarrow> kind \<Rightarrow> error + interpolant" where
  "interp1d x y k =
     (if length x \<noteq> length y then Inl ValueError
      else if length x < 2 then Inl ValueError
      else Inr \<lparr>ip_x = x, ip_y = y, ip_kind = k\<rparr>)"

definition searchsorted :: "rat list \<Rightarrow> rat \<Rightarrow> nat" where
  "searchsorted xs v = length (takeWhile (\<lambda>g. g < v) xs)"

definition clip :: "nat \<Rightarrow> nat \<Rightarrow> nat \<Rightarrow> nat" where
  "clip lo hi i = min (max i lo) hi"

definition call_linear :: "interpolant \<Rightarrow> rat \<Rightarrow> npfloat" where
  "call_linear ip x_new =
     (let x = ip_x ip; y = ip_y ip;
          hi = clip 1 (length x - 1) (searchsorted x x_new);
          lo = hi - 1;
          slope = np_div (Fin (y ! hi - y ! lo)) (Fin (x ! hi - x ! lo))
      in np_add (np_mul slope (Fin (x_new - x ! lo))) (Fin (y ! lo)))"

definition call_nearest :: "interpolant \<Rightarrow> rat \<Rightarrow> npfloat" where
  "call_nearest ip x_new =
     (let x = ip_x ip; y = ip_y ip;
          x_bds = map2 (\<lambda>a b. (a + b) / 2) (tl x) (butlast x);
          i = clip 0 (length x - 1) (searchsorted x_bds x_new)
      in Fin (y ! i))"

definition interp_call :: "interpolant \<Rightarrow> rat \<Rightarrow> npfloat" where
  "interp_call ip x_new =
     (if x_new < ip_x ip ! 0 \<or> x_new > last (ip_x ip) then NaN
      else (case ip_kind ip of
              Linear \<Rightarrow> call_linear ip x_new
            | Nearest \<Rightarrow> call_nearest ip x_new))"

subsection \<open>Binning and order statistics\<close>

text \<open>
  \<^verbatim>\<open>divvy\<close> and \<^verbatim>\<open>midpts\<close> come from the author's package \<^verbatim>\<open>mypy.my_numpy\<close>, outside
  this repository. \<^verbatim>\<open>divvy(ary, bins, keyrow)\<close> sorts the columns of a two-row array
  into the bins with \<^verbatim>\<open>numpy.digitize\<close> on row \<^verbatim>\<open>keyrow\<close>: bin \<open>i\<close> holds the columns
  whose key \<open>k\<close> has \<open>bins[i-1] \<le> k < bins[i]\<close>, the others are dropped, the order is
  kept. The two-row array is a list of pairs and the key row is given by its selector.
  \<^verbatim>\<open>digitize\<close> counts the bin edges that are not above the value, and places NaN
  behind the last edge.
\<close>

definition digitize :: "npfloat list \<Rightarrow> npfloat \<Rightarrow> nat" where
  "digitize bins v =
     (if v = NaN then length bins else length (filter (\<lambda>b. np_le b v) bins))"

definition divvy :: "('a \<Rightarrow> npfloat) \<Rightarrow> 'a list \<Rightarrow> npfloat list \<Rightarrow> 'a list list" where
  "divvy key ary bins =
     map (\<lambda>i. filter (\<lambda>c. digitize bins (key c) = i) ary) [1..<length bins]"

definition midpts :: "rat list \<Rightarrow> rat list" where
  "midpts bins = map2 (\<lambda>a b. (a + b) / 2) (butlast bins) (tl bins)"

text \<open>
  \<^verbatim>\<open>numpy.median\<close> and \<^verbatim>\<open>numpy.var\<close> of finite values. Of an empty array both are NaN
  (numpy warns and raises nothing).
\<close>

definition np_median :: "rat list \<Rightarrow> npfloat" where
  "np_median ys =
     (let s = sort ys; n = length s
      in if n = 0 then NaN
         else if odd n then Fin (s ! (n div 2))
         else Fin ((s ! (n div 2 - 1) + s ! (n div 2)) / 2))"

definition np_var :: "rat list \<Rightarrow> npfloat" where
  "np_var ys =
     (let n = length ys
      in if n = 0 then NaN
         else (let m = sum_list ys / of_nat n
               in Fin (sum_list (map (\<lambda>v. (v - m) * (v - m)) ys) / of_nat n)))"

subsection \<open>\<^verbatim>\<open>__median_trace\<close>\<close>

text \<open>
  The pixel count \<^verbatim>\<open>Npix\<close> is a header value. \<^verbatim>\<open>polyval(p, x)\<close> is Horner's scheme
  from zero.
\<close>

definition polyval1 :: "npfloat \<times> npfloat \<Rightarrow> rat \<Rightarrow> npfloat" where
  "polyval1 p x =
     np_add (np_mul (np_add (np_mul (Fin 0) (Fin x)) (fst p)) (Fin x)) (snd p)"

definition median_trace ::
  "'s ext \<Rightarrow> rat list \<Rightarrow> rat list \<Rightarrow> hval \<Rightarrow> int \<Rightarrow> error + npfloat list" where
  "median_trace E x y Npix binfac =
     (let cnts = zip x y
      in ebind (hval_num Npix) (\<lambda>npix.
         ebind (arange 0 (npix + 1) (of_int binfac)) (\<lambda>bins.
           (let binned = map (map snd) (divvy (\<lambda>c. Fin (fst c)) cnts (map Fin bins));
                meds = map np_median binned;
                sig2 = map np_var binned;
                Ns = map length binned;
                sig2' = map2 (\<lambda>n s. if n \<le> 1 then PInf else s) Ns sig2;
                ws = map2 (\<lambda>n s. np_div (Fin (of_nat n)) s) Ns sig2'
            in ebind (polyfit E (midpts bins) meds ws) (\<lambda>p.
                 Inr (map2 (\<lambda>xi yi. np_sub (Fin yi) (polyval1 p xi)) x y))))))"

subsection \<open>\<^verbatim>\<open>__lya_trace\<close>\<close>

text \<open>
  The loop test \<^verbatim>\<open>abs(ytrace - ytrace_old)/ytrace > 1e-4\<close>, and the loop on its four
  variables. The selection \<^verbatim>\<open>lyacnts\<close> pairs a wavelength with a (finite) y.
\<close>

definition lya_quotient :: "npfloat \<Rightarrow> npfloat \<Rightarrow> npfloat" where
  "lya_quotient ytrace ytrace_old = np_div (np_abs (np_sub ytrace ytrace_old)) ytrace"

definition lya_test :: "npfloat \<Rightarrow> npfloat \<Rightarrow> bool" where
  "lya_test ytrace ytrace_old = np_gt (lya_quotient ytrace ytrace_old) (Fin (1 / 10000))"

definition lya_narrow :: "(npfloat \<times> rat) list \<Rightarrow> npfloat \<Rightarrow> rat \<Rightarrow> (npfloat \<times> rat) list" where
  "lya_narrow lyacnts ytrace dy =
     hd (divvy (\<lambda>c. Fin (snd c)) lyacnts [np_sub ytrace (Fin dy), np_add ytrace (Fin dy)])"

function lya_loop ::
  "(npfloat \<times> rat) list \<Rightarrow> npfloat \<Rightarrow> npfloat \<Rightarrow> rat \<Rightarrow> npfloat" where
  "lya_loop lyacnts ytrace_old ytrace dy =
     (if lya_test ytrace ytrace_old
      then (let dy' = dy * (1 / 2);
                lyacnts' = lya_narrow lyacnts ytrace dy'
            in lya_loop lyacnts' ytrace (np_median (map snd lyacnts')) dy')
      else ytrace)"
  by pat_completeness auto

termination lya_loop
proof (relation "measure (\<lambda>(c, old, yt, dy).
         if lya_test yt old
         then 2 + 2 * length c + (if yt = np_median (map snd c) then 0 else 1)
         else 0)", goal_cases)
  case 1
  show ?case by simp
next
  case (2 lyacnts ytrace_old ytrace dy dy' lyacnts')
  let ?P = "\<lambda>c. digitize [np_sub ytrace (Fin dy'), np_add ytrace (Fin dy')] (Fin (snd c)) = 1"
  have same: "\<not> lya_test a a" for a
    by (cases a) (auto simp: lya_test_def lya_quotient_def np_gt_def np_sub_def)
  have sel: "lyacnts' = filter ?P lyacnts"
    using 2 by (simp add: lya_narrow_def divvy_def)
  have le: "length lyacnts' \<le> length lyacnts"
    by (simp add: sel)
  show ?case
  proof (cases "length lyacnts' = length lyacnts")
    case True
    then have "filter ?P lyacnts = lyacnts"
      unfolding sel by (metis filter_True length_filter_less linorder_neq_iff)
    then have "lyacnts' = lyacnts" by (simp add: sel)
    then show ?thesis using 2(1) same by auto
  next
    case False
    then have "length lyacnts' < length lyacnts" using le by simp
    then show ?thesis using 2(1) by auto
  qed
qed

text \<open>
  The same loop, recording its variables each time the loop test is evaluated: the
  first entry is the state before the loop, the last one the state in which the test
  fails.
\<close>

function lya_run ::
  "(npfloat \<times> rat) list \<Rightarrow> npfloat \<Rightarrow> npfloat \<Rightarrow> rat
     \<Rightarrow> ((npfloat \<times> rat) list \<times> npfloat \<times> npfloat \<times> rat) list" where
  "lya_run lyacnts ytrace_old ytrace dy =
     (lyacnts, ytrace_old, ytrace, dy) #
     (if lya_test ytrace ytrace_old
      then (let dy' = dy * (1 / 2);
                lyacnts' = lya_narrow lyacnts ytrace dy'
            in lya_run lyacnts' ytrace (np_median (map snd lyacnts')) dy')
      else [])"
  by pat_completeness auto

termination lya_run
proof (relation "measure (\<lambda>(c, old, yt, dy).
         if lya_test yt old
         then 2 + 2 * length c + (if yt = np_median (map snd c) then 0 else 1)
         else 0)", goal_cases)
  case 1
  show ?case by simp
next
  case (2 lyacnts ytrace_old ytrace dy dy' lyacnts')
  let ?P = "\<lambda>c. digitize [np_sub ytrace (Fin dy'), np_add ytrace (Fin dy')] (Fin (snd c)) = 1"
  have same: "\<not> lya_test a a" for a
    by (cases a) (auto simp: lya_test_def lya_quotient_def np_gt_def np_sub_def)
  have sel: "lyacnts' = filter ?P lyacnts"
    using 2 by (simp add: lya_narrow_def divvy_def)
  have le: "length lyacnts' \<le> length lyacnts"
    by (simp add: sel)
  show ?case
  proof (cases "length lyacnts' = length lyacnts")
    case True
    then have "filter ?P lyacnts = lyacnts"
      unfolding sel by (metis filter_True length_filter_less linorder_neq_iff)
    then have "lyacnts' = lyacnts" by (simp add: sel)
    then show ?thesis using 2(1) same by auto
  next
    case False
    then have "length lyacnts' < length lyacnts" using le by simp
    then show ?thesis using 2(1) by auto
  qed
qed

declare lya_loop.simps [simp del] lya_run.simps [simp del]

definition lya_trace :: "npfloat list \<Rightarrow> rat list \<Rightarrow> hval \<Rightarrow> error + npfloat list" where
  "lya_trace w y ymax =
     (let cnts = zip w y;
          lya_range = [Fin (2429 / 2), Fin (6086 / 5)];
          lyacnts = hd (divvy fst cnts lya_range);
          ytrace_old = PInf;
          ytrace = np_median (map snd lyacnts)
      in ebind (hval_num ymax) (\<lambda>ym.
           (let dy = ym / 2;
                ytrace' = lya_loop lyacnts ytrace_old ytrace dy
            in Inr (map (\<lambda>yi. np_sub (Fin yi) ytrace') y))))"

text \<open>
  The values of \<^verbatim>\<open>ytrace\<close> by which line 199 divides, one per evaluation of the loop
  test, in the run of \<^verbatim>\<open>__lya_trace\<close> on \<open>w\<close>, \<open>y\<close> and a numeric \<^verbatim>\<open>ymax\<close>.
\<close>

definition lya_divisors :: "npfloat list \<Rightarrow> rat list \<Rightarrow> rat \<Rightarrow> npfloat list" where
  "lya_divisors w y ym =
     (let lyacnts = hd (divvy fst (zip w y) [Fin (2429 / 2), Fin (6086 / 5)])
      in map (\<lambda>s. fst (snd (snd s)))
           (lya_run lyacnts PInf (np_median (map snd lyacnts)) (ym / 2)))"

subsection \<open>\<^verbatim>\<open>spectrifyCOS\<close>\<close>

text \<open>
  Of the reference file the annotator reads the \<^verbatim>\<open>segment\<close> column of \<^verbatim>\<open>x1d[1].data\<close>
  and the header \<^verbatim>\<open>x1d[1].header\<close>.
\<close>

record cos_x1d =
  xd_segment :: "string list"
  xh :: header

text \<open>
  Lines 61 to 68, the detector with several traces: the distance of every photon to
  every trace, the index of the nearest trace, and the distance to it.
\<close>

definition cos_yextr :: "cos_x1d \<Rightarrow> error + rat list" where
  "cos_yextr x1d =
     ebind (emap (\<lambda>s. last_char (HStr s)) (xd_segment x1d)) (\<lambda>segs.
     ebind (emap (\<lambda>seg. hget (xh x1d) (''SP_LOC_'' @ [seg])) segs) (\<lambda>vals.
       emap hval_num vals))"

definition cos_nuv :: "cos_x1d \<Rightarrow> rat list \<Rightarrow> error + (nat list \<times> npfloat list)" where
  "cos_nuv x1d yf =
     ebind (cos_yextr x1d) (\<lambda>yextr.
       (let xdisps = map (\<lambda>ye. map (\<lambda>yv. Fin (yv - ye)) yf) yextr
        in ebind (argmin_axis0 (map (map np_abs) xdisps) (length yf)) (\<lambda>order.
             Inr (order, pick_rows xdisps order))))"

text \<open>Lines 70 to 72, the detector with one trace per segment.\<close>

definition cos_fuv :: "cos_x1d \<Rightarrow> hval \<Rightarrow> rat list \<Rightarrow> error + npfloat list" where
  "cos_fuv x1d segment yf =
     ebind (last_char segment) (\<lambda>c.
     ebind (hget (xh x1d) (''SP_LOC_'' @ [c])) (\<lambda>v1.
     ebind (hget (xh x1d) (''SP_OFF_'' @ [c])) (\<lambda>v2.
     ebind (hval_num v1) (\<lambda>yexpected.
     ebind (hval_num v2) (\<lambda>yoff.
       (let yspec = yexpected + yoff
        in Inr (map (\<lambda>yv. Fin (yv - yspec)) yf)))))))"

text \<open>
  The body of the loop for one \<^verbatim>\<open>EVENTS\<close> unit. The locals \<^verbatim>\<open>order\<close> and \<^verbatim>\<open>xdisp\<close>
  are optional values: \<open>None\<close> is a name not yet bound, and reading it raises
  \<^verbatim>\<open>UnboundLocalError\<close>. (The names outlive an iteration, but an iteration that
  completes has bound both, and the next one takes the same branches.)
\<close>

definition cos_events ::
  "'s ext \<Rightarrow> hval \<Rightarrow> hval \<Rightarrow> cos_x1d \<Rightarrow> string \<Rightarrow> cos_event hdu \<Rightarrow> error + cos_event hdu" where
  "cos_events E segment det x1d traceloc t =
     (let td = data t; th = header t
      in ebind (if det = HStr ''FUV''
                then ebind (last_char segment) (\<lambda>c.
                       (let n = length (map time td)
                        in Inr (Some (FloatCol (replicate n (if c = CHR ''A'' then Fin 0 else Fin 1))))))
                else Inr None) (\<lambda>order0.
         if traceloc \<noteq> ''stsci'' \<and> det = HStr ''NUV'' then Inl NotImplementedError
         else
         ebind (if traceloc = ''stsci''
                then (if det = HStr ''NUV''
                      then ebind (cos_nuv x1d (map yfull td)) (\<lambda>r.
                             Inr (Some (IntCol (map int (fst r))), Some (snd r)))
                      else ebind (cos_fuv x1d segment (map yfull td)) (\<lambda>r.
                             Inr (order0, Some r)))
                else Inr (order0, None)) (\<lambda>v1.
         ebind (if traceloc = ''median''
                then ebind (hget th ''talen2'') (\<lambda>Npixx.
                     ebind (median_trace E (map xfull td) (map yfull td) Npixx 8) (\<lambda>r.
                       Inr (Some r)))
                else Inr (snd v1)) (\<lambda>xdisp2.
         ebind (if traceloc = ''lya''
                then ebind (hget th ''talen3'') (\<lambda>Npixy.
                     ebind (lya_trace (map (\<lambda>e. Fin (wavelength e)) td) (map yfull td) Npixy) (\<lambda>r.
                       Inr (Some r)))
                else Inr xdisp2) (\<lambda>xdisp3.
         (case fst v1 of
            None \<Rightarrow> Inl UnboundLocalError
          | Some order \<Rightarrow>
              (let epera = computeEperA E (map (\<lambda>e. Fin (wavelength e)) td) (Some order)
               in (case xdisp3 of
                     None \<Rightarrow> Inl UnboundLocalError
                   | Some xdisp \<Rightarrow>
                       Inr (append_cols t [''order'', ''xdisp'', ''epera''] [''1I'', ''1E'', ''1D'']
                              [order, FloatCol xdisp, FloatCol epera])))))))))"

text \<open>
  The loop over the units of \<^verbatim>\<open>tag\<close>, which replaces \<^verbatim>\<open>tag[i]\<close>, and the annotator. The
  result is the list \<^verbatim>\<open>tag\<close> as the call leaves it, with the exception raised, if any.
\<close>

fun cos_loop ::
  "'s ext \<Rightarrow> hval \<Rightarrow> hval \<Rightarrow> cos_x1d \<Rightarrow> string \<Rightarrow> cos_event hdu list
     \<Rightarrow> cos_event hdu list \<times> error option" where
  "cos_loop E segment det x1d traceloc [] = ([], None)"
| "cos_loop E segment det x1d traceloc (t # ts) =
     (if name t \<noteq> ''EVENTS''
      then (let r = cos_loop E segment det x1d traceloc ts in (t # fst r, snd r))
      else (case cos_events E segment det x1d traceloc t of
              Inl e \<Rightarrow> (t # ts, Some e)
            | Inr t' \<Rightarrow>
                (let r = cos_loop E segment det x1d traceloc ts in (t' # fst r, snd r))))"

definition spectrifyCOS ::
  "'s ext \<Rightarrow> cos_event hdu list \<Rightarrow> cos_x1d \<Rightarrow> string \<Rightarrow> cos_event hdu list \<times> error option" where
  "spectrifyCOS E tag x1d traceloc =
     (case tag of
        [] \<Rightarrow> (tag, Some IndexError)
      | t0 # rest \<Rightarrow>
          (case hget (header t0) ''segment'' of
             Inl e \<Rightarrow> (tag, Some e)
           | Inr segment \<Rightarrow>
               (case hget (header t0) ''detector'' of
                  Inl e \<Rightarrow> (tag, Some e)
                | Inr det \<Rightarrow> cos_loop E segment det x1d traceloc tag)))"

subsection \<open>\<^verbatim>\<open>spectrifySTIS\<close>\<close>

text \<open>
  Of the reference file the annotator reads the rows of \<^verbatim>\<open>x1d['sci'].data\<close>, one per
  order, and the header \<^verbatim>\<open>x1d[0].header\<close>. \<^verbatim>\<open>Norders\<close>, the keyword \<^verbatim>\<open>naxis2\<close> of the
  table, is its number of rows.
\<close>

record stis_order =
  xd_sporder :: int
  xd_extrlocy :: "rat list"
  xd_wavelength :: "rat list"
  xd_dq :: "int list"

record stis_x1d =
  sci_data :: "stis_order list"
  primary_header :: header

text \<open>
  Lines 107 to 123. The time column and the two coordinate columns are written in
  place and the keyword is deleted; the jittered coordinates are new arrays. \<open>g\<close> is
  the state of the process-wide generator when the lines are reached.
\<close>

definition snap :: "int \<Rightarrow> int" where
  "snap v = (if v mod 2 = 1 then v - 1 else v)"

fun random_sample :: "'s ext \<Rightarrow> nat \<Rightarrow> 's \<Rightarrow> rat list \<times> 's" where
  "random_sample E 0 g = ([], g)"
| "random_sample E (Suc n) g =
     (let d = rng_draw E g; r = random_sample E n (snd d)
      in (fst d # fst r, snd r))"

definition stis_preprocess ::
  "'s ext \<Rightarrow> 's \<Rightarrow> stis_event hdu
     \<Rightarrow> error + (stis_event hdu \<times> rat list \<times> rat list \<times> 's)" where
  "stis_preprocess E g t =
     ebind (hget (header t) ''tscal1'') (\<lambda>v.
     ebind (hval_num v) (\<lambda>tscal.
       (let t1 = t\<lparr>data := map (\<lambda>e. e\<lparr>time := time e * tscal\<rparr>) (data t)\<rparr>;
            t2 = t1\<lparr>header := (header t1)(''tscal1'' := None)\<rparr>;
            t3 = t2\<lparr>data := map (\<lambda>e. e\<lparr>axis1 := snap (axis1 e), axis2 := snap (axis2 e)\<rparr>)
                             (data t2)\<rparr>;
            x = map axis1 (data t3);
            y = map axis2 (data t3);
            g0 = rng_seed E 0;
            rx = random_sample E (length x) g0;
            x' = map2 (\<lambda>a r. of_int a + r * 2) x (fst rx);
            ry = random_sample E (length y) (snd rx);
            y' = map2 (\<lambda>a r. of_int a + r * 2) y (fst ry)
        in Inr (t3, x', y', snd ry))))"

text \<open>
  Lines 127 to 135: the pixel grid and one interpolant per order for the trace
  position, the wavelength and the quality flag.
\<close>

definition stis_interp ::
  "header \<Rightarrow> hval \<Rightarrow> hval \<Rightarrow> stis_order list
     \<Rightarrow> error + (hval \<times> hval \<times> interpolant list \<times> interpolant list \<times> interpolant list)" where
  "stis_interp th Nx_x1d Ny_x1d xd =
     ebind (hget th ''axlen1'') (\<lambda>Nx_tag.
     ebind (hget th ''axlen2'') (\<lambda>Ny_tag.
     ebind (py2_div Nx_tag Nx_x1d) (\<lambda>xfac.
     ebind (py2_div Ny_tag Ny_x1d) (\<lambda>yfac.
     ebind (hval_num xfac) (\<lambda>xf.
     ebind (hval_num Nx_tag) (\<lambda>nx.
     ebind (arange (1 + xf / 2) (nx + 1) xf) (\<lambda>xpix.
     ebind (hval_num yfac) (\<lambda>yf.
     ebind (emap (\<lambda>r. interp1d xpix (map (\<lambda>v. v * yf) (xd_extrlocy r)) Linear) xd)
       (\<lambda>extryinterp.
     ebind (emap (\<lambda>r. interp1d xpix (xd_wavelength r) Linear) xd) (\<lambda>waveinterp.
     ebind (emap (\<lambda>r. interp1d xpix (map of_int (xd_dq r)) Nearest) xd) (\<lambda>dqinterp.
       Inr (Nx_tag, Ny_tag, extryinterp, waveinterp, dqinterp))))))))))))"

text \<open>
  The masked read \<^verbatim>\<open>a[ind]\<close> and the masked write \<^verbatim>\<open>a[ind] = vals\<close>; a float written
  into the integer array \<^verbatim>\<open>dq\<close> is cast (truncated toward zero).
\<close>

definition select :: "bool list \<Rightarrow> 'a list \<Rightarrow> 'a list" where
  "select ind xs = map snd (filter fst (zip ind xs))"

fun masked_assign :: "'a list \<Rightarrow> bool list \<Rightarrow> 'a list \<Rightarrow> 'a list" where
  "masked_assign (a # as) (True # ms) (v # vs) = v # masked_assign as ms vs"
| "masked_assign (a # as) (False # ms) vs = a # masked_assign as ms vs"
| "masked_assign as ms vs = as"

fun astype_int :: "'s ext \<Rightarrow> npfloat \<Rightarrow> int" where
  "astype_int E (Fin r) = (if 0 \<le> r then \<lfloor>r\<rfloor> else \<lceil>r\<rceil>)"
| "astype_int E v = invalid_int E"

text \<open>Lines 139 to 151, more than one order.\<close>

definition stis_group ::
  "'s ext \<Rightarrow> interpolant list \<Rightarrow> interpolant list \<Rightarrow> nat list \<Rightarrow> rat list \<Rightarrow> nat
     \<Rightarrow> npfloat list \<times> int list \<Rightarrow> npfloat list \<times> int list" where
  "stis_group E waveinterp dqinterp line x l wd =
     (let ind = map (\<lambda>k. k = l) line
      in (masked_assign (fst wd) ind (map (interp_call (waveinterp ! l)) (select ind x)),
          masked_assign (snd wd) ind
            (map (astype_int E) (map (interp_call (dqinterp ! l)) (select ind x)))))"

definition stis_multi ::
  "'s ext \<Rightarrow> stis_order list \<Rightarrow> interpolant list \<Rightarrow> interpolant list \<Rightarrow> interpolant list
     \<Rightarrow> rat list \<Rightarrow> rat list
     \<Rightarrow> error + (npfloat list \<times> npfloat list option \<times> npfloat list \<times> col \<times> col)" where
  "stis_multi E xd extryinterp waveinterp dqinterp x y =
     (let xdisp = map (\<lambda>yint. map2 (\<lambda>yi xi. np_sub (Fin yi) (interp_call yint xi)) y x)
                      extryinterp
      in ebind (argmin_axis0 (map (map np_abs) xdisp) (length x)) (\<lambda>line.
           (let xdisp' = pick_rows xdisp line;
                order = map (\<lambda>l. xd_sporder (xd ! l)) line;
                wd = fold (stis_group E waveinterp dqinterp line x) [0..<length xd]
                       (replicate (length x) (Fin 0), replicate (length x) 0);
                epera = computeEperA E (fst wd) (Some (IntCol (map int line)))
            in Inr (fst wd, Some xdisp', epera, IntCol order, IntCol (snd wd)))))"

text \<open>Lines 154 to 163, one order.\<close>

definition stis_single ::
  "'s ext \<Rightarrow> stis_order list \<Rightarrow> interpolant list \<Rightarrow> interpolant list \<Rightarrow> interpolant list
     \<Rightarrow> string \<Rightarrow> hval \<Rightarrow> hval \<Rightarrow> rat list \<Rightarrow> rat list
     \<Rightarrow> error + (npfloat list \<times> npfloat list option \<times> npfloat list \<times> col \<times> col)" where
  "stis_single E xd extryinterp waveinterp dqinterp traceloc Nx_tag Ny_tag x y =
     (let dq = map (interp_call (dqinterp ! 0)) x;
          order = replicate (length x) (Fin (of_int (xd_sporder (xd ! 0))));
          wave = map (interp_call (waveinterp ! 0)) x;
          xdisp1 = (if traceloc = ''stsci''
                    then Some (map2 (\<lambda>yi xi. np_sub (Fin yi) (interp_call (extryinterp ! 0) xi)) y x)
                    else None)
      in ebind (if traceloc = ''median''
                then ebind (median_trace E x y Nx_tag 1) (\<lambda>r. Inr (Some r))
                else Inr xdisp1) (\<lambda>xdisp2.
         ebind (if traceloc = ''lya''
                then ebind (lya_trace wave y Ny_tag) (\<lambda>r. Inr (Some r))
                else Inr xdisp2) (\<lambda>xdisp3.
           Inr (wave, xdisp3, computeEperA E wave None, FloatCol order, FloatCol dq))))"

text \<open>
  Lines 125 to 168 on the preprocessed unit. With no order at all neither branch runs
  and \<^verbatim>\<open>wave\<close> is unbound at line 167; with one order and a \<^verbatim>\<open>traceloc\<close> that no test
  matches, \<^verbatim>\<open>xdisp\<close> is.
\<close>

definition stis_annotate ::
  "'s ext \<Rightarrow> stis_order list \<Rightarrow> hval \<Rightarrow> hval \<Rightarrow> string \<Rightarrow> stis_event hdu
     \<Rightarrow> rat list \<Rightarrow> rat list \<Rightarrow> error + stis_event hdu" where
  "stis_annotate E xd Nx_x1d Ny_x1d traceloc t x y =
     ebind (stis_interp (header t) Nx_x1d Ny_x1d xd) (\<lambda>(Nx_tag, Ny_tag, extryinterp, waveinterp, dqinterp).
     ebind (if length xd > 1 then stis_multi E xd extryinterp waveinterp dqinterp x y
            else if length xd = 1
            then stis_single E xd extryinterp waveinterp dqinterp traceloc Nx_tag Ny_tag x y
            else Inl UnboundLocalError) (\<lambda>(wave, xdisp_opt, epera, order, dq).
       (case xdisp_opt of
          None \<Rightarrow> Inl UnboundLocalError
        | Some xdisp \<Rightarrow>
            Inr (append_cols t [''wavelength'', ''xdisp'', ''epera'', ''order'', ''dq'']
                   [''1D'', ''1D'', ''1D'', ''1I'', ''1I'']
                   [FloatCol wave, FloatCol xdisp, FloatCol epera, order, dq]))))"

text \<open>
  The body of the loop for one \<^verbatim>\<open>EVENTS\<close> unit: the unit as the body leaves it (written
  in place also when a later line raises), the generator state, and the exception.
\<close>

definition stis_events ::
  "'s ext \<Rightarrow> stis_order list \<Rightarrow> hval \<Rightarrow> hval \<Rightarrow> string \<Rightarrow> 's \<Rightarrow> stis_event hdu
     \<Rightarrow> stis_event hdu \<times> 's \<times> error option" where
  "stis_events E xd Nx_x1d Ny_x1d traceloc g t =
     (case stis_preprocess E g t of
        Inl e \<Rightarrow> (t, g, Some e)
      | Inr (t3, x, y, g') \<Rightarrow>
          (case stis_annotate E xd Nx_x1d Ny_x1d traceloc t3 x y of
             Inl e \<Rightarrow> (t3, g', Some e)
           | Inr t4 \<Rightarrow> (t4, g', None)))"

fun stis_loop ::
  "'s ext \<Rightarrow> stis_order list \<Rightarrow> hval \<Rightarrow> hval \<Rightarrow> string \<Rightarrow> 's \<Rightarrow> stis_event hdu list
     \<Rightarrow> stis_event hdu list \<times> 's \<times> error option" where
  "stis_loop E xd Nx_x1d Ny_x1d traceloc g [] = ([], g, None)"
| "stis_loop E xd Nx_x1d Ny_x1d traceloc g (t # ts) =
     (if name t \<noteq> ''EVENTS''
      then (let r = stis_loop E xd Nx_x1d Ny_x1d traceloc g ts in (t # fst r, snd r))
      else (case stis_events E xd Nx_x1d Ny_x1d traceloc g t of
              (t', g', Some e) \<Rightarrow> (t' # ts, g', Some e)
            | (t', g', None) \<Rightarrow>
                (let r = stis_loop E xd Nx_x1d Ny_x1d traceloc g' ts in (t' # fst r, snd r))))"

text \<open>
  The annotator. \<^verbatim>\<open>raise NotImplemented(...)\<close> at line 98 calls the constant
  \<^verbatim>\<open>NotImplemented\<close>, which is not callable: the call raises \<^verbatim>\<open>TypeError\<close> before any
  exception object exists.
\<close>

definition spectrifySTIS ::
  "'s ext \<Rightarrow> stis_event hdu list \<Rightarrow> stis_x1d \<Rightarrow> string \<Rightarrow> 's
     \<Rightarrow> stis_event hdu list \<times> 's \<times> error option" where
  "spectrifySTIS E tag x1d traceloc g =
     (let xd = sci_data x1d; Norders = length xd
      in (case hget (primary_header x1d) ''sizaxis1'' of
            Inl e \<Rightarrow> (tag, g, Some e)
          | Inr Nx_x1d \<Rightarrow>
              (case hget (primary_header x1d) ''sizaxis2'' of
                 Inl e \<Rightarrow> (tag, g, Some e)
               | Inr Ny_x1d \<Rightarrow>
                   if Norders > 1 \<and> traceloc \<noteq> ''stsci'' then (tag, g, Some TypeError)
                   else stis_loop E xd Nx_x1d Ny_x1d traceloc g tag)))"

subsection \<open>The nearest trace, as the specification words it\<close>

text \<open>
  \<open>nearest_at ds l\<close>: among the signed distances \<open>ds\<close> of one photon to the candidate
  traces, in iteration order, candidate \<open>l\<close> is at most as far as every candidate, in
  absolute value, and closer than every candidate before it. A distance that is NaN
  compares with nothing: a candidate at such a distance is not nearest, and no
  candidate is nearest when any distance is NaN.
\<close>

definition nearest_at :: "npfloat list \<Rightarrow> nat \<Rightarrow> bool" where
  "nearest_at ds l \<longleftrightarrow>
     l < length ds
     \<and> (\<forall>j < length ds. np_le (np_abs (ds ! l)) (np_abs (ds ! j)))
     \<and> (\<forall>j < l. np_lt (np_abs (ds ! l)) (np_abs (ds ! j)))"

text \<open>
  \<open>built_on start step m k ip\<close>: the interpolant \<open>ip\<close> of kind \<open>k\<close> stands on the grid of
  \<open>m\<close> points from \<open>start\<close> in steps of \<open>step\<close>, as \<open>interp1d\<close> accepts it.
\<close>

definition built_on :: "rat \<Rightarrow> rat \<Rightarrow> nat \<Rightarrow> kind \<Rightarrow> interpolant \<Rightarrow> bool" where
  "built_on start step m k ip \<longleftrightarrow>
     step \<noteq> 0 \<and> 2 \<le> m
     \<and> ip_x ip = map (\<lambda>j. start + of_nat j * step) [0..<m]
     \<and> length (ip_y ip) = m \<and> ip_kind ip = k"

text \<open>
  \<open>stis_rewritten t t'\<close>: the unit \<open>t'\<close> has the rows of the unit \<open>t\<close>, in their order, each
  with its time multiplied by the time-scale factor of the header of \<open>t\<close> and with every
  odd pixel coordinate decremented by one; the time-scale keyword is gone from the
  header, which is otherwise that of \<open>t\<close>.
\<close>

definition stis_rewritten :: "stis_event hdu \<Rightarrow> stis_event hdu \<Rightarrow> bool" where
  "stis_rewritten t t' \<longleftrightarrow>
     (\<exists>v tscal. hget (header t) ''tscal1'' = Inr v \<and> hval_num v = Inr tscal
        \<and> data t' = map (\<lambda>e. \<lparr>time = time e * tscal,
                                 axis1 = (if odd (axis1 e) then axis1 e - 1 else axis1 e),
                                 axis2 = (if odd (axis2 e) then axis2 e - 1 else axis2 e)\<rparr>)
                         (data t))
     \<and> header t' = (header t)(''tscal1'' := None)
     \<and> name t' = name t"

text \<open>
  \<open>outside_grid grid v\<close>: the query \<open>v\<close> lies outside \<open>[min(grid), max(grid)]\<close>.
  \<open>oob ip v\<close> is the test the interpolant makes itself, against the first and the last
  grid point.
\<close>

definition outside_grid :: "rat list \<Rightarrow> rat \<Rightarrow> bool" where
  "outside_grid grid v \<longleftrightarrow> v < Min (set grid) \<or> Max (set grid) < v"

definition oob :: "interpolant \<Rightarrow> rat \<Rightarrow> bool" where
  "oob ip v \<longleftrightarrow> v < ip_x ip ! 0 \<or> v > last (ip_x ip)"

subsection \<open>Example data\<close>

text \<open>
  A concrete instance of the collaborators, on which the model can be run: a constant
  flux function and fit, a counter as generator (draws 0, 1/4, 2/4, 3/4 in turn), and
  the 64-bit value that a cast of NaN gives on x86-64. Then a STIS exposure of two
  photons on an 8 by 8 detector, with reference data for two orders sampled at four
  columns.
\<close>

definition ext0 :: "nat ext" where
  "ext0 = \<lparr>computeEperA = (\<lambda>w ord. map (\<lambda>v. Fin 1) w),
           polyfit = (\<lambda>x y w. Inr (Fin 0, Fin 0)),
           rng_seed = (\<lambda>n. n),
           rng_draw = (\<lambda>s. (of_nat (s mod 4) / 4, Suc s)),
           invalid_int = - 9223372036854775808\<rparr>"

definition stis_events0 :: "stis_event hdu" where
  "stis_events0 =
     \<lparr>name = ''EVENTS'',
      header = [''tscal1'' \<mapsto> HFlt (1 / 8000), ''axlen1'' \<mapsto> HInt 8, ''axlen2'' \<mapsto> HInt 8],
      data = [\<lparr>time = 16000, axis1 = 3, axis2 = 4\<rparr>, \<lparr>time = 24000, axis1 = 6, axis2 = 7\<rparr>],
      newcols = []\<rparr>"

definition stis_order1 :: stis_order where
  "stis_order1 =
     \<lparr>xd_sporder = 1, xd_extrlocy = [1, 1, 1, 1], xd_wavelength = [1200, 1210, 1220, 1230],
      xd_dq = [0, 0, 4, 0]\<rparr>"

definition stis_order2 :: stis_order where
  "stis_order2 =
     \<lparr>xd_sporder = 2, xd_extrlocy = [3, 3, 3, 3], xd_wavelength = [1300, 1310, 1320, 1330],
      xd_dq = [0, 16, 0, 0]\<rparr>"

definition stis_x1d2 :: stis_x1d where
  "stis_x1d2 =
     \<lparr>sci_data = [stis_order1, stis_order2],
      primary_header = [''sizaxis1'' \<mapsto> HInt 4, ''sizaxis2'' \<mapsto> HInt 4]\<rparr>"

text \<open>
  A STIS exposure of one photon in the first detector column, left of the pixel grid;
  COS reference data with two traces, at y = 50 and y = 150; and the interpolants that
  lines 127 to 135 build from the STIS example.
\<close>

definition stis_events1 :: "stis_event hdu" where
  "stis_events1 =
     \<lparr>name = ''EVENTS'',
      header = [''tscal1'' \<mapsto> HFlt (1 / 8000), ''axlen1'' \<mapsto> HInt 8, ''axlen2'' \<mapsto> HInt 8],
      data = [\<lparr>time = 16000, axis1 = 1, axis2 = 4\<rparr>],
      newcols = []\<rparr>"

definition cos_x1d0 :: cos_x1d where
  "cos_x1d0 =
     \<lparr>xd_segment = [''NUVA'', ''NUVB''],
      xh = [''SP_LOC_A'' \<mapsto> HFlt 50, ''SP_LOC_B'' \<mapsto> HFlt 150]\<rparr>"

definition stis_ex0 :: "interpolant list" where
  "stis_ex0 = [\<lparr>ip_x = [2, 4, 6, 8], ip_y = [2, 2, 2, 2], ip_kind = Linear\<rparr>,
               \<lparr>ip_x = [2, 4, 6, 8], ip_y = [6, 6, 6, 6], ip_kind = Linear\<rparr>]"

definition stis_wv0 :: "interpolant list" where
  "stis_wv0 = [\<lparr>ip_x = [2, 4, 6, 8], ip_y = [1200, 1210, 1220, 1230], ip_kind = Linear\<rparr>,
               \<lparr>ip_x = [2, 4, 6, 8], ip_y = [1300, 1310, 1320, 1330], ip_kind = Linear\<rparr>]"

definition stis_dq0 :: "interpolant list" where
  "stis_dq0 = [\<lparr>ip_x = [2, 4, 6, 8], ip_y = [0, 0, 4, 0], ip_kind = Nearest\<rparr>,
               \<lparr>ip_x = [2, 4, 6, 8], ip_y = [0, 16, 0, 0], ip_kind = Nearest\<rparr>]"

text \<open>
  A COS exposure on the FUV detector, segment A: a primary unit and an event table of
  two photons, with the reference data of the segment.
\<close>

definition cos_tag0 :: "cos_event hdu list" where
  "cos_tag0 =
     [\<lparr>name = ''PRIMARY'',
       header = [''segment'' \<mapsto> HStr ''FUVA'', ''detector'' \<mapsto> HStr ''FUV''],
       data = [], newcols = []\<rparr>,
      \<lparr>name = ''EVENTS'', header = [''talen2'' \<mapsto> HInt 16, ''talen3'' \<mapsto> HInt 16],
       data = [\<lparr>time = 1, xfull = 3, yfull = 55, wavelength = 1215\<rparr>,
               \<lparr>time = 2, xfull = 9, yfull = 45, wavelength = 1216\<rparr>],
       newcols = []\<rparr>]"

definition cos_x1d1 :: cos_x1d where
  "cos_x1d1 =
     \<lparr>xd_segment = [''FUVA''],
      xh = [''SP_LOC_A'' \<mapsto> HFlt 48, ''SP_OFF_A'' \<mapsto> HFlt 2]\<rparr>"

text \<open>
  A COS exposure on the NUV detector with three photons, for the reference data with
  the traces at y = 50 and y = 150; and a STIS exposure of two photons at the same
  height, the first in detector column 1, left of the pixel grid, the second inside the
  grid.
\<close>

definition cos_tag1 :: "cos_event hdu list" where
  "cos_tag1 =
     [\<lparr>name = ''PRIMARY'',
       header = [''segment'' \<mapsto> HStr ''N/A'', ''detector'' \<mapsto> HStr ''NUV''],
       data = [], newcols = []\<rparr>,
      \<lparr>name = ''EVENTS'', header = Map.empty,
       data = [\<lparr>time = 1, xfull = 3, yfull = 60, wavelength = 2000\<rparr>,
               \<lparr>time = 2, xfull = 9, yfull = 140, wavelength = 2100\<rparr>,
               \<lparr>time = 3, xfull = 5, yfull = 100, wavelength = 2200\<rparr>],
       newcols = []\<rparr>]"

definition stis_events2 :: "stis_event hdu" where
  "stis_events2 =
     \<lparr>name = ''EVENTS'',
      header = [''tscal1'' \<mapsto> HFlt (1 / 8000), ''axlen1'' \<mapsto> HInt 8, ''axlen2'' \<mapsto> HInt 8],
      data = [\<lparr>time = 16000, axis1 = 1, axis2 = 6\<rparr>, \<lparr>time = 24000, axis1 = 4, axis2 = 6\<rparr>],
      newcols = []\<rparr>"

text \<open>STIS reference data with a single order.\<close>

definition stis_x1d1 :: stis_x1d where
  "stis_x1d1 =
     \<lparr>sci_data = [stis_order1],
      primary_header = [''sizaxis1'' \<mapsto> HInt 4, ''sizaxis2'' \<mapsto> HInt 4]\<rparr>"

section \<open>Properties\<close>

subsection \<open>Dequantization\<close>

lemma preprocess_coords:
  assumes "stis_preprocess E g t = Inr (u, x, y, h)"
  shows "x = map2 (\<lambda>a r. of_int a + r * 2) (map snap (map axis1 (data t)))
               (fst (random_sample E (length (data t)) (rng_seed E 0)))"
    and "y = map2 (\<lambda>a r. of_int a + r * 2) (map snap (map axis2 (data t)))
               (fst (random_sample E (length (data t))
                  (snd (random_sample E (length (data t)) (rng_seed E 0)))))"
    and "h = snd (random_sample E (length (data t))
                  (snd (random_sample E (length (data t)) (rng_seed E 0))))"
  using assms
  by (auto simp: stis_preprocess_def ebind_def Let_def comp_def split: sum.splits)

text \<open>
  C7. Two runs of the preprocessing on tables with the same raw pixel columns give the
  same jittered coordinates, whatever the generator state each run starts from and
  whatever else the two tables hold: the seed call resets the generator.
\<close>

theorem dequantize_deterministic:
  assumes "map axis1 (data t) = map axis1 (data t')"
    and "map axis2 (data t) = map axis2 (data t')"
    and "stis_preprocess E g t = Inr (u, x, y, h)"
    and "stis_preprocess E g' t' = Inr (u', x', y', h')"
  shows "x = x' \<and> y = y' \<and> h = h'"
proof -
  have n: "length (data t) = length (data t')"
    using assms(1) by (metis length_map)
  show ?thesis
    using preprocess_coords[OF assms(3)] preprocess_coords[OF assms(4)] assms(1,2) n
    by simp
qed

lemma preprocess_returns:
  assumes "hget (header t) ''tscal1'' = Inr v" and "hval_num v = Inr tscal"
  shows "\<exists>u x y h. stis_preprocess E g t = Inr (u, x, y, h)"
  using assms by (simp add: stis_preprocess_def ebind_def Let_def)

theorem dequantize_deterministic_witness:
  "map axis1 (data stis_events0)
     = map axis1 (data (stis_events0\<lparr>header := [''tscal1'' \<mapsto> HInt 3]\<rparr>))
   \<and> map axis2 (data stis_events0)
     = map axis2 (data (stis_events0\<lparr>header := [''tscal1'' \<mapsto> HInt 3]\<rparr>))
   \<and> (\<exists>u u' x y h.
         stis_preprocess ext0 7 stis_events0 = Inr (u, x, y, h)
       \<and> stis_preprocess ext0 99 (stis_events0\<lparr>header := [''tscal1'' \<mapsto> HInt 3]\<rparr>)
           = Inr (u', x, y, h))"
proof -
  let ?t' = "stis_events0\<lparr>header := [''tscal1'' \<mapsto> HInt 3]\<rparr>"
  have k: "hget (header stis_events0) ''tscal1'' = Inr (HFlt (1 / 8000))"
    "hget (header ?t') ''tscal1'' = Inr (HInt 3)"
    by (simp_all add: stis_events0_def hget_def)
  have v: "hval_num (HFlt (1 / 8000)) = Inr (1 / 8000)" "hval_num (HInt 3) = Inr 3"
    by simp_all
  obtain u x y h where a: "stis_preprocess ext0 7 stis_events0 = Inr (u, x, y, h)"
    using preprocess_returns[OF k(1) v(1), of ext0 7] by auto
  obtain u' x' y' h' where b: "stis_preprocess ext0 99 ?t' = Inr (u', x', y', h')"
    using preprocess_returns[OF k(2) v(2), of ext0 99] by auto
  have p: "map axis1 (data stis_events0) = map axis1 (data ?t')"
      "map axis2 (data stis_events0) = map axis2 (data ?t')"
    by simp_all
  from dequantize_deterministic[OF p a b] a b p show ?thesis by auto
qed

subsection \<open>Rejected configurations\<close>

text \<open>
  C3. On the two-order example with the policy \<^verbatim>\<open>median\<close> the STIS annotator stops
  before the loop and leaves the table as it was, but the exception is the
  \<^verbatim>\<open>TypeError\<close> of the call at line 98, not a configuration error.
\<close>

theorem stis_multi_order_median_raises_TypeError:
  "spectrifySTIS ext0 [stis_events0] stis_x1d2 ''median'' 7
     = ([stis_events0], 7, Some TypeError)"
  by (simp add: spectrifySTIS_def stis_x1d2_def hget_def)

subsection \<open>The iterative centroid narrower\<close>

lemmas lya_eval =
  lya_trace_def divvy_def digitize_def np_le_def np_median_def ebind_def Let_def
  lya_narrow_def lya_test_def lya_quotient_def np_gt_def np_sub_def

lemma lya_run_ne: "lya_run a b c d \<noteq> []"
  by (subst lya_run.simps) simp

lemma lya_run_hd: "hd (lya_run a b c d) = (a, b, c, d)"
  by (subst lya_run.simps) simp

text \<open>The recorded run ends in the state whose \<^verbatim>\<open>ytrace\<close> the loop returns.\<close>

lemma lya_loop_last_run:
  "lya_loop c old yt dy = fst (snd (snd (last (lya_run c old yt dy))))"
proof (induction c old yt dy rule: lya_loop.induct)
  case (1 lyacnts ytrace_old ytrace dy)
  show ?case
  proof (cases "lya_test ytrace ytrace_old")
    case True
    show ?thesis
      using True 1[OF True refl refl]
      by (subst lya_loop.simps, subst lya_run.simps) (simp add: Let_def lya_run_ne)
  next
    case False
    then show ?thesis
      by (subst lya_loop.simps, subst lya_run.simps) simp
  qed
qed

lemma lya_test_nan: "\<not> lya_test NaN old"
  by (simp add: lya_test_def lya_quotient_def np_gt_def np_sub_def)

lemma np_median_nil: "np_median [] = NaN"
  by (simp add: np_median_def)

text \<open>A state with an undefined centroid ends the run, and the loop returns NaN.\<close>

lemma lya_run_nan:
  "(c', old', NaN, dy') \<in> set (lya_run c old yt dy) \<Longrightarrow> lya_loop c old yt dy = NaN"
proof (induction c old yt dy rule: lya_loop.induct)
  case (1 lyacnts ytrace_old ytrace dy)
  show ?case
  proof (cases "lya_test ytrace ytrace_old")
    case True
    then have "ytrace \<noteq> NaN" using lya_test_nan by auto
    with 1(2) True have "(c', old', NaN, dy')
        \<in> set (lya_run (lya_narrow lyacnts ytrace (dy * (1 / 2))) ytrace
                 (np_median (map snd (lya_narrow lyacnts ytrace (dy * (1 / 2))))) (dy * (1 / 2)))"
      by (subst (asm) lya_run.simps) (simp add: Let_def)
    from 1(1)[OF True refl refl this] True show ?thesis
      by (subst lya_loop.simps) (simp add: Let_def)
  next
    case False
    with 1(2) have "ytrace = NaN"
      by (subst (asm) lya_run.simps) simp
    with False show ?thesis by (subst lya_loop.simps) simp
  qed
qed

text \<open>After the first test, \<^verbatim>\<open>ytrace\<close> is the median of the current selection.\<close>

lemma lya_run_tl_median:
  "(c', old', yt', dy') \<in> set (tl (lya_run c old yt dy)) \<Longrightarrow> yt' = np_median (map snd c')"
proof (induction c old yt dy rule: lya_loop.induct)
  case (1 lyacnts ytrace_old ytrace dy)
  let ?dy = "dy * (1 / 2)"
  let ?c = "lya_narrow lyacnts ytrace ?dy"
  show ?case
  proof (cases "lya_test ytrace ytrace_old")
    case True
    with 1(2) have m: "(c', old', yt', dy') \<in> set (lya_run ?c ytrace (np_median (map snd ?c)) ?dy)"
      by (subst (asm) lya_run.simps) (simp add: Let_def)
    have "lya_run ?c ytrace (np_median (map snd ?c)) ?dy
       = (?c, ytrace, np_median (map snd ?c), ?dy)
         # tl (lya_run ?c ytrace (np_median (map snd ?c)) ?dy)"
      using lya_run_ne lya_run_hd by (metis list.collapse)
    with m have "(c', old', yt', dy') = (?c, ytrace, np_median (map snd ?c), ?dy)
      \<or> (c', old', yt', dy') \<in> set (tl (lya_run ?c ytrace (np_median (map snd ?c)) ?dy))"
      by (metis set_ConsD)
    then show ?thesis
      using 1(1)[OF True refl refl] by auto
  next
    case False
    with 1(2) show ?thesis by (subst (asm) lya_run.simps) simp
  qed
qed

text \<open>
  C4. The claim fails on two samples in the line window at y = 0 and y = 100 with
  \<^verbatim>\<open>ymax\<close> = 100: the median is 50, the first shrunken window (25 to 75) selects
  nothing, and the estimator returns NaN for both offsets without raising.
\<close>

theorem lya_empty_window_counterexample:
  "lya_trace [Fin 1215, Fin 1216] [0, 100] (HInt 100) = Inr [NaN, NaN]"
  by (simp add: lya_loop.simps lya_eval)

text \<open>
  C4, amended. When the selection of the centroid narrower is empty, at the start or
  after any shrinking of the window, no error is reported: the centroid is NaN, the loop
  stops, and every offset returned is NaN.
\<close>

theorem lya_empty_selection_silent:
  assumes "hval_num ymax = Inr ym"
    and "lyacnts = hd (divvy fst (zip w y) [Fin (2429 / 2), Fin (6086 / 5)])"
    and "([], old', yt', dy')
           \<in> set (lya_run lyacnts PInf (np_median (map snd lyacnts)) (ym / 2))"
  shows "lya_trace w y ymax = Inr (map (\<lambda>yi. NaN) y)"
proof -
  let ?run = "lya_run lyacnts PInf (np_median (map snd lyacnts)) (ym / 2)"
  have run: "?run = (lyacnts, PInf, np_median (map snd lyacnts), ym / 2) # tl ?run"
    using lya_run_ne lya_run_hd by (metis list.collapse)
  have "yt' = NaN"
  proof (cases "([], old', yt', dy') \<in> set (tl ?run)")
    case True
    then show ?thesis using lya_run_tl_median[OF True] by (simp add: np_median_nil)
  next
    case False
    with assms(3) run have "([], old', yt', dy') = (lyacnts, PInf, np_median (map snd lyacnts), ym / 2)"
      by (metis set_ConsD)
    then show ?thesis by (auto simp: np_median_nil)
  qed
  with assms(3) have "lya_loop lyacnts PInf (np_median (map snd lyacnts)) (ym / 2) = NaN"
    using lya_run_nan by blast
  then show ?thesis
    using assms(1,2) by (simp add: lya_trace_def ebind_def Let_def np_sub_def)
qed

theorem lya_empty_selection_silent_witness:
  "hval_num (HInt 100) = Inr 100
   \<and> ([], Fin 50, NaN, 25)
       \<in> set (lya_run [(Fin 1215, 0), (Fin 1216, 100)] PInf
                (np_median (map snd [(Fin 1215, 0), (Fin 1216, 100 :: rat)])) (100 / 2))
   \<and> lya_trace [Fin 1215, Fin 1216] [0, 100] (HInt 100) = Inr (map (\<lambda>yi. NaN) [0, 100 :: rat])"
proof -
  have a: "hval_num (HInt 100) = Inr 100" by simp
  have b: "[(Fin 1215, 0), (Fin 1216, 100 :: rat)]
      = hd (divvy fst (zip [Fin 1215, Fin 1216] [0, 100]) [Fin (2429 / 2), Fin (6086 / 5)])"
    by (simp add: divvy_def digitize_def np_le_def)
  have c: "([], Fin 50, NaN, 25)
       \<in> set (lya_run [(Fin 1215, 0), (Fin 1216, 100)] PInf
                (np_median (map snd [(Fin 1215, 0), (Fin 1216, 100 :: rat)])) (100 / 2))"
    by (simp add: lya_run.simps lya_eval)
  from lya_empty_selection_silent[OF a b c] a c show ?thesis by simp
qed

text \<open>
  C5. The claim fails on one sample in the line window at y = 0: the loop test is
  evaluated twice and divides by zero both times.
\<close>

theorem lya_zero_centroid_counterexample:
  "lya_divisors [Fin 1215] [0] 100 = [Fin 0, Fin 0]
   \<and> lya_trace [Fin 1215] [0] (HInt 100) = Inr [Fin 0]"
  by (simp add: lya_divisors_def lya_run.simps lya_loop.simps lya_eval)

text \<open>
  C5, amended. The test has no guard: its first evaluation divides by the median y of
  the samples in the line window, whatever that is. A division by a centroid of exactly
  zero raises nothing; the quotient is infinite, and the loop goes on, unless the
  previous estimate is zero or NaN as well: then the quotient is NaN and the loop stops.
\<close>

theorem lya_test_unguarded:
  "hd (lya_divisors w y ym)
     = np_median (map snd (hd (divvy fst (zip w y) [Fin (2429 / 2), Fin (6086 / 5)])))
   \<and> lya_quotient (Fin 0) old = (if old = Fin 0 \<or> old = NaN then NaN else PInf)
   \<and> lya_test (Fin 0) old = (old \<noteq> Fin 0 \<and> old \<noteq> NaN)"
proof -
  have "hd (lya_divisors w y ym)
     = np_median (map snd (hd (divvy fst (zip w y) [Fin (2429 / 2), Fin (6086 / 5)])))"
    using lya_run_ne lya_run_hd by (simp add: lya_divisors_def Let_def hd_map)
  moreover have "lya_quotient (Fin 0) old = (if old = Fin 0 \<or> old = NaN then NaN else PInf)"
    by (cases old) (auto simp: lya_quotient_def np_sub_def)
  moreover have "lya_test (Fin 0) old = (old \<noteq> Fin 0 \<and> old \<noteq> NaN)"
    by (cases old) (auto simp: lya_test_def lya_quotient_def np_sub_def np_gt_def)
  ultimately show ?thesis by simp
qed

subsection \<open>Sequencing and \<^verbatim>\<open>argmin\<close>\<close>

lemma ebind_Inr: "ebind m f = Inr r \<longleftrightarrow> (\<exists>v. m = Inr v \<and> f v = Inr r)"
  by (cases m) (simp_all add: ebind_def)

lemma emap_Inr:
  "emap f xs = Inr ys \<Longrightarrow> length ys = length xs \<and> (\<forall>i < length xs. f (xs ! i) = Inr (ys ! i))"
proof (induction xs arbitrary: ys)
  case Nil
  then show ?case by simp
next
  case (Cons x xs)
  from Cons.prems obtain v vs where v: "f x = Inr v" and vs: "emap f xs = Inr vs" and ys: "ys = v # vs"
    by (auto simp: ebind_Inr)
  from Cons.IH[OF vs] v ys show ?case by (auto simp: nth_Cons')
qed

lemma option_case_Inr:
  "(case x of None \<Rightarrow> Inl e | Some v \<Rightarrow> f v) = Inr r \<longleftrightarrow> (\<exists>v. x = Some v \<and> f v = Inr r)"
  by (cases x) auto

lemma argmin_loop_Fin:
  assumes "length pre = i" and "mi < i" and "pre ! mi = m"
    and "\<forall>p \<in> set pre. m \<le> p" and "\<forall>j < mi. m < pre ! j"
  shows "(let k = argmin_loop (map Fin rs) i (Fin m) mi; xs = pre @ rs
          in k < length xs \<and> (\<forall>v \<in> set xs. xs ! k \<le> v) \<and> (\<forall>j < k. xs ! k < xs ! j))"
  using assms
proof (induction rs arbitrary: pre i m mi)
  case Nil
  then show ?case by (auto simp: Let_def)
next
  case (Cons v rs)
  show ?case
  proof (cases "v < m")
    case True
    have a: "length (pre @ [v]) = Suc i" using Cons.prems by simp
    have b: "i < Suc i" by simp
    have c: "(pre @ [v]) ! i = v" using Cons.prems by (simp add: nth_append)
    have d: "\<forall>p \<in> set (pre @ [v]). v \<le> p" using Cons.prems True by fastforce
    have e: "\<forall>j < i. v < (pre @ [v]) ! j"
      using Cons.prems True by (auto simp: nth_append) (metis nth_mem order_less_le_trans)
    from Cons.IH[OF a b c d e] True show ?thesis
      by (simp add: Let_def np_ge_def np_le_def)
  next
    case False
    have a: "length (pre @ [v]) = Suc i" using Cons.prems by simp
    have b: "mi < Suc i" using Cons.prems by simp
    have c: "(pre @ [v]) ! mi = m" using Cons.prems by (simp add: nth_append)
    have d: "\<forall>p \<in> set (pre @ [v]). m \<le> p" using Cons.prems False by auto
    have e: "\<forall>j < mi. m < (pre @ [v]) ! j"
      using Cons.prems by (auto simp: nth_append)
    from Cons.IH[OF a b c d e] False show ?thesis
      by (auto simp: Let_def np_ge_def np_le_def)
  qed
qed

lemma np_argmin_Fin:
  assumes "rs \<noteq> []" and "np_argmin (map Fin rs) = Inr k"
  shows "k < length rs \<and> (\<forall>j < length rs. rs ! k \<le> rs ! j) \<and> (\<forall>j < k. rs ! k < rs ! j)"
proof -
  obtain a rs' where rs: "rs = a # rs'" using assms(1) by (cases rs) auto
  have k: "k = argmin_loop (map Fin rs') 1 (Fin a) 0" using assms(2) rs by simp
  have "let k = argmin_loop (map Fin rs') 1 (Fin a) 0; xs = [a] @ rs'
        in k < length xs \<and> (\<forall>v \<in> set xs. xs ! k \<le> v) \<and> (\<forall>j < k. xs ! k < xs ! j)"
    by (rule argmin_loop_Fin) auto
  then have *: "k < length rs \<and> (\<forall>v \<in> set rs. rs ! k \<le> v) \<and> (\<forall>j < k. rs ! k < rs ! j)"
    unfolding Let_def k[symmetric] using rs by simp
  then have "\<forall>j < length rs. rs ! k \<le> rs ! j" using nth_mem by blast
  with * show ?thesis by blast
qed

lemma argmin_axis0_Inr:
  assumes "argmin_axis0 rows n = Inr line"
  shows "rows \<noteq> [] \<and> length line = n \<and> (\<forall>i < n. np_argmin (column rows i) = Inr (line ! i))"
proof -
  from assms have ne: "rows \<noteq> []" and e: "emap (\<lambda>i. np_argmin (column rows i)) [0..<n] = Inr line"
    by (auto simp: argmin_axis0_def split: if_splits)
  from emap_Inr[OF e] ne show ?thesis by auto
qed

subsection \<open>Interpolants\<close>

lemma interp_call_oob: "oob ip v \<Longrightarrow> interp_call ip v = NaN"
  by (simp add: interp_call_def oob_def)

lemma clip_bounds: "lo \<le> hi \<Longrightarrow> lo \<le> clip lo hi i \<and> clip lo hi i \<le> hi"
  by (simp add: clip_def)

lemma call_linear_Fin:
  assumes "built_on start step m Linear ip"
  shows "\<exists>r. call_linear ip v = Fin r"
proof -
  define hi where "hi = clip 1 (length (ip_x ip) - 1) (searchsorted (ip_x ip) v)"
  have len: "length (ip_x ip) = m" and m: "2 \<le> m" and step: "step \<noteq> 0"
    and x: "\<And>k. k < m \<Longrightarrow> ip_x ip ! k = start + of_nat k * step"
    using assms by (simp_all add: built_on_def)
  have hi: "1 \<le> hi \<and> hi \<le> m - 1"
    unfolding hi_def using clip_bounds[of 1 "m - 1"] m len by simp
  then have lt: "hi < m" "hi - 1 < m" using m by arith+
  have a: "ip_x ip ! hi = start + of_nat hi * step" using lt(1) by (rule x)
  have b: "ip_x ip ! (hi - 1) = start + of_nat (hi - 1) * step" using lt(2) by (rule x)
  have d: "ip_x ip ! hi - ip_x ip ! (hi - 1) = step"
    unfolding a b using hi by (simp add: of_nat_diff algebra_simps)
  have "call_linear ip v =
      np_add (np_mul (np_div (Fin (ip_y ip ! hi - ip_y ip ! (hi - 1)))
                             (Fin (ip_x ip ! hi - ip_x ip ! (hi - 1))))
                     (Fin (v - ip_x ip ! (hi - 1))))
             (Fin (ip_y ip ! (hi - 1)))"
    by (simp only: call_linear_def Let_def hi_def)
  also have "\<dots> = Fin ((ip_y ip ! hi - ip_y ip ! (hi - 1)) / step * (v - ip_x ip ! (hi - 1))
                      + ip_y ip ! (hi - 1))"
    unfolding d using step by simp
  finally show ?thesis by blast
qed

lemma interp_call_Fin_or_NaN:
  assumes "built_on start step m k ip"
  shows "(oob ip v \<and> interp_call ip v = NaN) \<or> (\<not> oob ip v \<and> (\<exists>r. interp_call ip v = Fin r))"
proof (cases "oob ip v")
  case True
  then show ?thesis by (simp add: interp_call_oob)
next
  case False
  show ?thesis
  proof (cases k)
    case Linear
    with assms call_linear_Fin[of start step m ip v] False show ?thesis
      by (auto simp: interp_call_def oob_def built_on_def)
  next
    case Nearest
    with assms False show ?thesis
      by (auto simp: interp_call_def oob_def built_on_def call_nearest_def Let_def)
  qed
qed

lemma interp1d_Inr:
  "interp1d x y k = Inr ip \<Longrightarrow> ip_x ip = x \<and> ip_y ip = y \<and> ip_kind ip = k
      \<and> length y = length x \<and> 2 \<le> length x"
  by (auto simp: interp1d_def split: if_splits)

lemma arange_Inr:
  "arange start stop step = Inr xs \<Longrightarrow>
     step \<noteq> 0 \<and> (\<exists>m. xs = map (\<lambda>j. start + of_nat j * step) [0..<m])"
  by (auto simp: arange_def split: if_splits)

lemma emap_interp1d:
  assumes "emap (\<lambda>r. interp1d xpix (f r) k) xd = Inr ips"
    and "xpix = map (\<lambda>j. start + of_nat j * step) [0..<m]" and "step \<noteq> 0"
  shows "length ips = length xd
     \<and> (\<forall>l < length xd. built_on start step m k (ips ! l) \<and> ip_y (ips ! l) = f (xd ! l))"
proof -
  from emap_Inr[OF assms(1)] have len: "length ips = length xd"
    and el: "\<forall>l < length xd. interp1d xpix (f (xd ! l)) k = Inr (ips ! l)" by auto
  have "built_on start step m k (ips ! l) \<and> ip_y (ips ! l) = f (xd ! l)" if "l < length xd" for l
    using interp1d_Inr[OF el[rule_format, OF that]] assms(2,3)
    by (auto simp: built_on_def)
  with len show ?thesis by blast
qed

lemma stis_interp_built:
  assumes "stis_interp th Nx_x1d Ny_x1d xd = Inr (Nx_tag, Ny_tag, ex, wv, dq)"
  shows "\<exists>start step m.
      length ex = length xd \<and> length wv = length xd \<and> length dq = length xd
    \<and> (\<forall>l < length xd. built_on start step m Linear (ex ! l)
           \<and> built_on start step m Linear (wv ! l) \<and> ip_y (wv ! l) = xd_wavelength (xd ! l)
           \<and> built_on start step m Nearest (dq ! l) \<and> ip_y (dq ! l) = map of_int (xd_dq (xd ! l)))"
proof -
  from assms obtain xpix a s b yf where ar: "arange a b s = Inr xpix"
    and e1: "emap (\<lambda>r. interp1d xpix (map (\<lambda>v. v * yf) (xd_extrlocy r)) Linear) xd = Inr ex"
    and e2: "emap (\<lambda>r. interp1d xpix (xd_wavelength r) Linear) xd = Inr wv"
    and e3: "emap (\<lambda>r. interp1d xpix (map of_int (xd_dq r)) Nearest) xd = Inr dq"
    by (auto simp: stis_interp_def ebind_Inr)
  from arange_Inr[OF ar] obtain m where s: "s \<noteq> 0" and x: "xpix = map (\<lambda>j. a + of_nat j * s) [0..<m]"
    by auto
  from emap_interp1d[OF e1 x s] emap_interp1d[OF e2 x s] emap_interp1d[OF e3 x s]
  show ?thesis by blast
qed

lemma masked_assign_map:
  "length ind = length as \<Longrightarrow> length xs = length as \<Longrightarrow>
   masked_assign as ind (map f (select ind xs))
     = map (\<lambda>(a, m, x). if m then f x else a) (zip as (zip ind xs))"
proof (induction as arbitrary: ind xs)
  case Nil
  then show ?case by simp
next
  case (Cons a as)
  then obtain m ms x xs' where ind: "ind = m # ms" and xs: "xs = x # xs'"
    by (metis length_Suc_conv)
  with Cons.prems have l: "length ms = length as" "length xs' = length as" by simp_all
  show ?case
  proof (cases m)
    case True
    then have "select ind xs = x # select ms xs'" by (simp add: select_def ind xs)
    with Cons.IH[OF l] True show ?thesis by (simp add: ind xs)
  next
    case False
    then have "select ind xs = select ms xs'" by (simp add: select_def ind xs)
    with Cons.IH[OF l] False show ?thesis by (simp add: ind xs)
  qed
qed

lemma masked_assign_nth:
  assumes "length ind = length as" and "length xs = length as" and "i < length as"
  shows "masked_assign as ind (map f (select ind xs)) ! i = (if ind ! i then f (xs ! i) else as ! i)"
  using assms by (simp add: masked_assign_map)

lemma masked_assign_length:
  "length ind = length as \<Longrightarrow> length xs = length as \<Longrightarrow>
   length (masked_assign as ind (map f (select ind xs))) = length as"
  by (simp add: masked_assign_map)

lemma stis_group_step:
  assumes "length line = length x" and "length (fst wd) = length x" and "length (snd wd) = length x"
  shows "length (fst (stis_group E wv dq line x l wd)) = length x
       \<and> length (snd (stis_group E wv dq line x l wd)) = length x
       \<and> (\<forall>i < length x.
            fst (stis_group E wv dq line x l wd) ! i
              = (if line ! i = l then interp_call (wv ! l) (x ! i) else fst wd ! i)
          \<and> snd (stis_group E wv dq line x l wd) ! i
              = (if line ! i = l then astype_int E (interp_call (dq ! l) (x ! i)) else snd wd ! i))"
proof -
  let ?ind = "map (\<lambda>k. k = l) line"
  have li: "length ?ind = length (fst wd)" "length ?ind = length (snd wd)"
    and lx: "length x = length (fst wd)" "length x = length (snd wd)"
    using assms by simp_all
  have m2: "map (astype_int E) (map (interp_call (dq ! l)) (select ?ind x))
      = map (\<lambda>v. astype_int E (interp_call (dq ! l) v)) (select ?ind x)"
    by simp
  show ?thesis
    unfolding stis_group_def Let_def fst_conv snd_conv m2
    using masked_assign_length[OF li(1) lx(1)] masked_assign_length[OF li(2) lx(2)]
      masked_assign_nth[OF li(1) lx(1)] masked_assign_nth[OF li(2) lx(2)] assms
    by simp
qed

lemma stis_groups_fold:
  assumes "length line = length x" and "length (fst wd) = length x" and "length (snd wd) = length x"
  shows "length (fst (fold (stis_group E wv dq line x) [0..<k] wd)) = length x
       \<and> length (snd (fold (stis_group E wv dq line x) [0..<k] wd)) = length x
       \<and> (\<forall>i < length x.
            fst (fold (stis_group E wv dq line x) [0..<k] wd) ! i
              = (if line ! i < k then interp_call (wv ! (line ! i)) (x ! i) else fst wd ! i)
          \<and> snd (fold (stis_group E wv dq line x) [0..<k] wd) ! i
              = (if line ! i < k then astype_int E (interp_call (dq ! (line ! i)) (x ! i))
                 else snd wd ! i))"
proof (induction k)
  case 0
  show ?case using assms by simp
next
  case (Suc k)
  let ?s = "fold (stis_group E wv dq line x) [0..<k] wd"
  have f: "fold (stis_group E wv dq line x) [0..<Suc k] wd = stis_group E wv dq line x k ?s"
    by simp
  from Suc have l: "length (fst ?s) = length x" "length (snd ?s) = length x" by simp_all
  from stis_group_step[OF assms(1) l, of E wv dq k] Suc
  show ?case unfolding f by (auto simp: less_Suc_eq)
qed

lemma oob_same_grid:
  "built_on start step m k ip \<Longrightarrow> built_on start step m k' ip' \<Longrightarrow> oob ip v = oob ip' v"
  by (simp add: built_on_def oob_def)

lemma np_sub_Fin: "np_sub (Fin a) (Fin b) = Fin (a - b)" "np_sub (Fin a) NaN = NaN"
  by (simp_all add: np_sub_def)

lemma stis_interp_example:
  "stis_interp (header stis_events0) (HInt 4) (HInt 4) (sci_data stis_x1d2)
     = Inr (HInt 8, HInt 8, stis_ex0, stis_wv0, stis_dq0)"
  by code_simp

lemma outside_grid_oob:
  assumes "ip_x ip \<noteq> []" and "outside_grid (ip_x ip) v"
  shows "oob ip v"
proof -
  have "ip_x ip ! 0 \<in> set (ip_x ip)" "last (ip_x ip) \<in> set (ip_x ip)"
    using assms(1) by simp_all
  then have "Min (set (ip_x ip)) \<le> ip_x ip ! 0" "last (ip_x ip) \<le> Max (set (ip_x ip))"
    by simp_all
  with assms(2) show ?thesis by (auto simp: outside_grid_def oob_def)
qed

lemma built_on_grid: "built_on start step m k ip \<Longrightarrow> built_on start step m k' ip' \<Longrightarrow> ip_x ip' = ip_x ip"
  by (simp add: built_on_def)

lemma built_on_ne: "built_on start step m k ip \<Longrightarrow> ip_x ip \<noteq> []"
  by (auto simp: built_on_def)

text \<open>
  An interpolant that \<open>interp1d\<close> has built evaluates to NaN at a query outside
  \<open>[min(grid), max(grid)]\<close>, whatever its kind.
\<close>

lemma interp1d_outside_grid:
  assumes "interp1d grid vals k = Inr ip" and "outside_grid grid v"
  shows "interp_call ip v = NaN"
proof -
  from interp1d_Inr[OF assms(1)] have "ip_x ip = grid" "ip_x ip \<noteq> []" by auto
  with assms(2) show ?thesis
    using outside_grid_oob interp_call_oob by metis
qed

text \<open>
  C2. On the two-order example with a photon left of the pixel grid, the wavelength and
  the offset stored for the photon are NaN, but the quality flag is not: the branch for
  several orders writes the flags into an integer array (lines 146 and 150), and what
  the column holds is the integer that the conversion of NaN gives on the platform.
  With the one-order reference data the same photon keeps the NaN of the interpolant
  in the quality column (line 154).
\<close>

theorem stis_multi_order_dq_cast:
  "map newcols (fst (spectrifySTIS ext0 [stis_events1] stis_x1d2 ''stsci'' 7))
     = [[(''wavelength'', ''1D'', FloatCol [NaN]),
         (''xdisp'', ''1D'', FloatCol [NaN]),
         (''epera'', ''1D'', FloatCol [Fin 1]),
         (''order'', ''1I'', IntCol [1]),
         (''dq'', ''1I'', IntCol [invalid_int ext0])]]
   \<and> map newcols (fst (spectrifySTIS ext0 [stis_events1] stis_x1d1 ''stsci'' 7))
     = [[(''wavelength'', ''1D'', FloatCol [NaN]),
         (''xdisp'', ''1D'', FloatCol [NaN]),
         (''epera'', ''1D'', FloatCol [Fin 1]),
         (''order'', ''1I'', FloatCol [Fin 1]),
         (''dq'', ''1I'', FloatCol [NaN])]]"
  by code_simp

subsection \<open>STIS preprocessing\<close>

lemma random_sample_range:
  assumes "\<forall>g. 0 \<le> fst (rng_draw E g) \<and> fst (rng_draw E g) < 1"
  shows "length (fst (random_sample E n g)) = n
       \<and> (\<forall>r \<in> set (fst (random_sample E n g)). 0 \<le> r \<and> r < 1)"
  using assms by (induction n arbitrary: g) (auto simp: Let_def)

lemma snap_even: "even (snap v) \<and> snap v \<le> v \<and> v < snap v + 2"
  unfolding snap_def by presburger

lemma snap_odd: "snap v = (if odd v then v - 1 else v)"
  by (simp add: snap_def odd_iff_mod_2_eq_one)

lemma jitter_nth:
  assumes "length rs = length as" and "\<forall>r \<in> set rs. 0 \<le> r \<and> r < (1::rat)" and "i < length as"
  shows "of_int (as ! i) \<le> map2 (\<lambda>a r. of_int a + r * 2) as rs ! i
       \<and> map2 (\<lambda>a r. of_int a + r * 2) as rs ! i < of_int (as ! i) + 2"
proof -
  have "rs ! i \<in> set rs" using assms by simp
  then have "0 \<le> rs ! i \<and> rs ! i < 1" using assms(2) by blast
  then show ?thesis using assms(1,3) by simp
qed

lemma stis_annotate_keeps:
  "stis_annotate E xd Nx_x1d Ny_x1d traceloc t x y = Inr r \<Longrightarrow>
     data r = data t \<and> header r = header t \<and> name r = name t"
  by (auto simp: stis_annotate_def ebind_def append_cols_def
      split: sum.splits option.splits prod.splits)

lemma stis_loop_append:
  "stis_loop E xd Nx Ny tr g pre = (pre', g1, None) \<Longrightarrow>
   stis_loop E xd Nx Ny tr g (pre @ rest)
     = (pre' @ fst (stis_loop E xd Nx Ny tr g1 rest), snd (stis_loop E xd Nx Ny tr g1 rest))"
proof (induction pre arbitrary: g pre')
  case Nil
  then show ?case by simp
next
  case (Cons t ts)
  show ?case
  proof (cases "name t = ''EVENTS''")
    case False
    with Cons.prems obtain ts' where r: "stis_loop E xd Nx Ny tr g ts = (ts', g1, None)"
      and t: "pre' = t # ts'"
      by (cases "stis_loop E xd Nx Ny tr g ts") (auto simp: Let_def)
    from Cons.IH[OF r] False t show ?thesis by (simp add: Let_def)
  next
    case True
    with Cons.prems obtain t' g2 ts' where e: "stis_events E xd Nx Ny tr g t = (t', g2, None)"
      and r: "stis_loop E xd Nx Ny tr g2 ts = (ts', g1, None)"
      and t: "pre' = t' # ts'"
      by (cases "stis_events E xd Nx Ny tr g t";
          cases "stis_loop E xd Nx Ny tr (fst (snd (stis_events E xd Nx Ny tr g t))) ts")
         (auto simp: Let_def split: option.splits)
    from Cons.IH[OF r] True t e show ?thesis by (simp add: Let_def)
  qed
qed

text \<open>
  C6. Not every invocation preprocesses. With two orders and the policy \<^verbatim>\<open>lya\<close> the
  call stops at line 98, before the loop, and the table is left as it came: the times
  are not rescaled, the odd coordinates 3 and 7 are still odd, and the time-scale
  keyword is still in the header.
\<close>

theorem stis_rejected_call_not_preprocessed:
  "spectrifySTIS ext0 [stis_events0] stis_x1d2 ''lya'' 7 = ([stis_events0], 7, Some TypeError)
   \<and> data stis_events0
       = [\<lparr>time = 16000, axis1 = 3, axis2 = 4\<rparr>, \<lparr>time = 24000, axis1 = 6, axis2 = 7\<rparr>]
   \<and> header stis_events0 ''tscal1'' = Some (HFlt (1 / 8000))"
  by (simp add: spectrifySTIS_def stis_x1d2_def hget_def stis_events0_def)

text \<open>
  C6, amended. Whenever an invocation reaches an \<^verbatim>\<open>EVENTS\<close> unit whose header has the
  time-scale keyword (the configuration was accepted and the units before it were
  processed without an exception: the call on them alone returns), the unit is
  preprocessed as the claim says, whether or not a later line raises. In the unit the
  call leaves, the times are multiplied by the factor and the keyword is deleted, and
  every raw coordinate is snapped down to the nearest even value (an odd one is
  decremented). The coordinates \<open>x\<close> and \<open>y\<close> that the rest of the loop body annotates
  from are the snapped ones plus twice a draw from the generator seeded with 0, first
  all of \<open>x\<close>, then all of \<open>y\<close>: an offset in [0, 2) when the draws are in [0, 1), as
  numpy's are. (Values are exact here; the rounding of the sum is not modelled.)
\<close>

theorem stis_preprocessing_steps:
  assumes "\<forall>g. 0 \<le> fst (rng_draw E g) \<and> fst (rng_draw E g) < 1"
    and "spectrifySTIS E pre x1d traceloc g = (pre', g1, None)"
    and "name t = ''EVENTS''"
    and "hget (header t) ''tscal1'' = Inr v" and "hval_num v = Inr tscal"
  shows "\<exists>u post' g' r x y Nx Ny.
      spectrifySTIS E (pre @ t # post) x1d traceloc g = (pre' @ u # post', g', r)
    \<and> name u = name t
    \<and> map time (data u) = map (\<lambda>e. time e * tscal) (data t)
    \<and> header u = (header t)(''tscal1'' := None)
    \<and> map axis1 (data u) = map (\<lambda>e. if odd (axis1 e) then axis1 e - 1 else axis1 e) (data t)
    \<and> map axis2 (data u) = map (\<lambda>e. if odd (axis2 e) then axis2 e - 1 else axis2 e) (data t)
    \<and> x = map2 (\<lambda>a r. of_int a + r * 2) (map axis1 (data u))
             (fst (random_sample E (length (data t)) (rng_seed E 0)))
    \<and> y = map2 (\<lambda>a r. of_int a + r * 2) (map axis2 (data u))
             (fst (random_sample E (length (data t))
                (snd (random_sample E (length (data t)) (rng_seed E 0)))))
    \<and> length x = length (data t) \<and> length y = length (data t)
    \<and> (\<forall>i < length (data t).
          even (axis1 (data u ! i)) \<and> even (axis2 (data u ! i))
        \<and> of_int (axis1 (data u ! i)) \<le> x ! i \<and> x ! i < of_int (axis1 (data u ! i)) + 2
        \<and> of_int (axis2 (data u ! i)) \<le> y ! i \<and> y ! i < of_int (axis2 (data u ! i)) + 2)
    \<and> hget (primary_header x1d) ''sizaxis1'' = Inr Nx
    \<and> hget (primary_header x1d) ''sizaxis2'' = Inr Ny
    \<and> (stis_annotate E (sci_data x1d) Nx Ny traceloc (u\<lparr>newcols := newcols t\<rparr>) x y = Inr u
       \<or> (\<exists>e. stis_annotate E (sci_data x1d) Nx Ny traceloc u x y = Inl e
              \<and> newcols u = newcols t \<and> r = Some e \<and> post' = post))"
proof -
  let ?n = "length (data t)"
  let ?xd = "sci_data x1d"
  let ?t' = "t\<lparr>data := map (\<lambda>e. e\<lparr>time := time e * tscal, axis1 := snap (axis1 e), axis2 := snap (axis2 e)\<rparr>) (data t),
               header := (header t)(''tscal1'' := None)\<rparr>"
  let ?rx = "random_sample E ?n (rng_seed E 0)"
  let ?ry = "random_sample E ?n (snd ?rx)"
  let ?x = "map2 (\<lambda>a r. of_int a + r * 2) (map axis1 (data ?t')) (fst ?rx)"
  let ?y = "map2 (\<lambda>a r. of_int a + r * 2) (map axis2 (data ?t')) (fst ?ry)"
  from assms(2) obtain Nx Ny where nx: "hget (primary_header x1d) ''sizaxis1'' = Inr Nx"
    and ny: "hget (primary_header x1d) ''sizaxis2'' = Inr Ny"
    and cfg: "\<not> (length ?xd > 1 \<and> traceloc \<noteq> ''stsci'')"
    and lp: "stis_loop E ?xd Nx Ny traceloc g pre = (pre', g1, None)"
    by (auto simp: spectrifySTIS_def Let_def split: sum.splits if_splits)
  have sp: "spectrifySTIS E tg x1d traceloc g = stis_loop E ?xd Nx Ny traceloc g tg" for tg
    using nx ny cfg by (auto simp: spectrifySTIS_def Let_def)
  note ap = stis_loop_append[OF lp, of "t # post"]
  have p: "stis_preprocess E g1 t = Inr (?t', ?x, ?y, snd ?ry)"
    using assms(4,5) by (simp add: stis_preprocess_def ebind_def Let_def comp_def)
  have rx: "length (fst ?rx) = ?n" "\<forall>r \<in> set (fst ?rx). 0 \<le> r \<and> r < 1"
    and ry: "length (fst ?ry) = ?n" "\<forall>r \<in> set (fst ?ry). 0 \<le> r \<and> r < 1"
    using random_sample_range[OF assms(1)] by blast+
  have lx: "length ?x = ?n" and ly: "length ?y = ?n" using rx(1) ry(1) by simp_all
  have jx: "of_int (axis1 (data ?t' ! i)) \<le> ?x ! i \<and> ?x ! i < of_int (axis1 (data ?t' ! i)) + 2"
    if "i < ?n" for i
    using jitter_nth[of "fst ?rx" "map axis1 (data ?t')" i] rx that by simp
  have jy: "of_int (axis2 (data ?t' ! i)) \<le> ?y ! i \<and> ?y ! i < of_int (axis2 (data ?t' ! i)) + 2"
    if "i < ?n" for i
    using jitter_nth[of "fst ?ry" "map axis2 (data ?t')" i] ry that by simp
  have rows: "name ?t' = name t"
    "map time (data ?t') = map (\<lambda>e. time e * tscal) (data t)"
    "header ?t' = (header t)(''tscal1'' := None)"
    "map axis1 (data ?t') = map (\<lambda>e. if odd (axis1 e) then axis1 e - 1 else axis1 e) (data t)"
    "map axis2 (data ?t') = map (\<lambda>e. if odd (axis2 e) then axis2 e - 1 else axis2 e) (data t)"
    "newcols ?t' = newcols t"
    by (simp_all add: comp_def snap_odd)
  have bounds: "\<forall>i < ?n.
          even (axis1 (data ?t' ! i)) \<and> even (axis2 (data ?t' ! i))
        \<and> of_int (axis1 (data ?t' ! i)) \<le> ?x ! i \<and> ?x ! i < of_int (axis1 (data ?t' ! i)) + 2
        \<and> of_int (axis2 (data ?t' ! i)) \<le> ?y ! i \<and> ?y ! i < of_int (axis2 (data ?t' ! i)) + 2"
    using jx jy snap_even by simp
  show ?thesis
  proof (cases "stis_annotate E ?xd Nx Ny traceloc ?t' ?x ?y")
    case (Inl e)
    then have ev: "stis_events E ?xd Nx Ny traceloc g1 t = (?t', snd ?ry, Some e)"
      by (simp add: stis_events_def p)
    have res: "spectrifySTIS E (pre @ t # post) x1d traceloc g = (pre' @ ?t' # post, snd ?ry, Some e)"
      unfolding sp ap using assms(3) ev by simp
    show ?thesis
      apply (rule exI[of _ ?t'], rule exI[of _ post], rule exI[of _ "snd ?ry"],
             rule exI[of _ "Some e"], rule exI[of _ ?x], rule exI[of _ ?y],
             rule exI[of _ Nx], rule exI[of _ Ny])
      apply (intro conjI res rows(1-5) refl lx ly bounds nx ny)
      apply (rule disjI2, rule exI[of _ e])
      apply (intro conjI Inl rows(6) refl)
      done
  next
    case (Inr t4)
    from stis_annotate_keeps[OF Inr] have k: "data t4 = data ?t'" "header t4 = header ?t'"
      "name t4 = name ?t'" by simp_all
    have bk: "t4\<lparr>newcols := newcols t\<rparr> = ?t'"
      using Inr by (auto simp: stis_annotate_def ebind_Inr option_case_Inr append_cols_def
          split: prod.splits)
    have ev: "stis_events E ?xd Nx Ny traceloc g1 t = (t4, snd ?ry, None)"
      using Inr by (simp add: stis_events_def p)
    obtain post' g' r where rest: "stis_loop E ?xd Nx Ny traceloc (snd ?ry) post = (post', g', r)"
      by (cases "stis_loop E ?xd Nx Ny traceloc (snd ?ry) post") auto
    have res: "spectrifySTIS E (pre @ t # post) x1d traceloc g = (pre' @ t4 # post', g', r)"
      unfolding sp ap using assms(3) ev rest by (simp add: Let_def)
    have a: "stis_annotate E ?xd Nx Ny traceloc (t4\<lparr>newcols := newcols t\<rparr>) ?x ?y = Inr t4"
      unfolding bk by (rule Inr)
    show ?thesis
      apply (rule exI[of _ t4], rule exI[of _ post'], rule exI[of _ g'],
             rule exI[of _ r], rule exI[of _ ?x], rule exI[of _ ?y],
             rule exI[of _ Nx], rule exI[of _ Ny])
      unfolding k
      apply (intro conjI res rows(1-5) refl lx ly bounds nx ny)
      apply (rule disjI1)
      using a unfolding k apply assumption
      done
  qed
qed

theorem stis_preprocessing_steps_witness:
  "(\<forall>g. 0 \<le> fst (rng_draw ext0 g) \<and> fst (rng_draw ext0 g) < 1)
   \<and> spectrifySTIS ext0 [] stis_x1d2 ''stsci'' 7 = ([], 7, None)
   \<and> name stis_events0 = ''EVENTS''
   \<and> hget (header stis_events0) ''tscal1'' = Inr (HFlt (1 / 8000))
   \<and> hval_num (HFlt (1 / 8000)) = Inr (1 / 8000)
   \<and> map (\<lambda>t. (map time (data t), map axis1 (data t), map axis2 (data t))) [stis_events0]
       = [([16000, 24000], [3, 6], [4, 7])]
   \<and> (\<exists>u post' g' r x y.
         spectrifySTIS ext0 ([] @ stis_events0 # []) stis_x1d2 ''stsci'' 7 = ([] @ u # post', g', r)
       \<and> map time (data u) = [2, 3] \<and> header u ''tscal1'' = None
       \<and> map axis1 (data u) = [2, 6] \<and> map axis2 (data u) = [4, 6]
       \<and> x = [2, 13 / 2] \<and> y = [5, 15 / 2]
       \<and> (stis_annotate ext0 (sci_data stis_x1d2) (HInt 4) (HInt 4) ''stsci''
              (u\<lparr>newcols := newcols stis_events0\<rparr>) x y = Inr u
           \<or> (\<exists>e. stis_annotate ext0 (sci_data stis_x1d2) (HInt 4) (HInt 4) ''stsci'' u x y = Inl e
                  \<and> newcols u = newcols stis_events0 \<and> r = Some e \<and> post' = [])))"
proof -
  have a: "\<forall>g. 0 \<le> fst (rng_draw ext0 g) \<and> fst (rng_draw ext0 g) < 1"
    by (simp add: ext0_def)
  have e: "spectrifySTIS ext0 [] stis_x1d2 ''stsci'' 7 = ([], 7, None)"
    by (simp add: spectrifySTIS_def stis_x1d2_def hget_def)
  have n: "name stis_events0 = ''EVENTS''" by (simp add: stis_events0_def)
  have b: "hget (header stis_events0) ''tscal1'' = Inr (HFlt (1 / 8000))"
    by (simp add: stis_events0_def hget_def)
  have c: "hval_num (HFlt (1 / 8000)) = Inr (1 / 8000)" by simp
  have o: "map (\<lambda>t. (map time (data t), map axis1 (data t), map axis2 (data t))) [stis_events0]
       = [([16000, 24000], [3, 6], [4, 7])]"
    by (simp add: stis_events0_def)
  have r1: "fst (random_sample ext0 (length (data stis_events0)) (rng_seed ext0 0)) = [0, 1 / 4]"
    by code_simp
  have r2: "fst (random_sample ext0 (length (data stis_events0))
                (snd (random_sample ext0 (length (data stis_events0)) (rng_seed ext0 0))))
            = [1 / 2, 3 / 4]"
    by code_simp
  have d: "map (\<lambda>e. time e * (1 / 8000)) (data stis_events0) = [2, 3]"
    "map (\<lambda>e. if odd (axis1 e) then axis1 e - 1 else axis1 e) (data stis_events0) = [2, 6]"
    "map (\<lambda>e. if odd (axis2 e) then axis2 e - 1 else axis2 e) (data stis_events0) = [4, 6]"
    by (simp_all add: stis_events0_def)
  have s: "hget (primary_header stis_x1d2) ''sizaxis1'' = Inr Nx \<Longrightarrow> Nx = HInt 4"
    "hget (primary_header stis_x1d2) ''sizaxis2'' = Inr Ny \<Longrightarrow> Ny = HInt 4" for Nx Ny
    by (auto simp: stis_x1d2_def hget_def)
  from stis_preprocessing_steps[OF a e n b c, of "[]"]
  obtain u post' g' r x y Nx Ny where
    p: "spectrifySTIS ext0 ([] @ stis_events0 # []) stis_x1d2 ''stsci'' 7 = ([] @ u # post', g', r)"
    and t: "map time (data u) = map (\<lambda>e. time e * (1 / 8000)) (data stis_events0)"
    and h: "header u = (header stis_events0)(''tscal1'' := None)"
    and a1: "map axis1 (data u)
        = map (\<lambda>e. if odd (axis1 e) then axis1 e - 1 else axis1 e) (data stis_events0)"
    and a2: "map axis2 (data u)
        = map (\<lambda>e. if odd (axis2 e) then axis2 e - 1 else axis2 e) (data stis_events0)"
    and x: "x = map2 (\<lambda>a r. of_int a + r * 2) (map axis1 (data u))
             (fst (random_sample ext0 (length (data stis_events0)) (rng_seed ext0 0)))"
    and y: "y = map2 (\<lambda>a r. of_int a + r * 2) (map axis2 (data u))
             (fst (random_sample ext0 (length (data stis_events0))
                (snd (random_sample ext0 (length (data stis_events0)) (rng_seed ext0 0)))))"
    and nx: "hget (primary_header stis_x1d2) ''sizaxis1'' = Inr Nx"
    and ny: "hget (primary_header stis_x1d2) ''sizaxis2'' = Inr Ny"
    and an: "stis_annotate ext0 (sci_data stis_x1d2) Nx Ny ''stsci''
              (u\<lparr>newcols := newcols stis_events0\<rparr>) x y = Inr u
           \<or> (\<exists>e. stis_annotate ext0 (sci_data stis_x1d2) Nx Ny ''stsci'' u x y = Inl e
                  \<and> newcols u = newcols stis_events0 \<and> r = Some e \<and> post' = [])"
    by blast
  have xv: "x = [2, 13 / 2]" unfolding x a1 d r1 by simp
  have yv: "y = [5, 15 / 2]" unfolding y a2 d r2 by simp
  have tv: "map time (data u) = [2, 3]" using t d by simp
  have hv: "header u ''tscal1'' = None" using h by simp
  have a1v: "map axis1 (data u) = [2, 6]" using a1 d by simp
  have a2v: "map axis2 (data u) = [4, 6]" using a2 d by simp
  note an' = an[unfolded s(1)[OF nx] s(2)[OF ny]]
  show ?thesis
    apply (intro conjI a e n b c o)
    apply (rule exI[of _ u], rule exI[of _ post'], rule exI[of _ g'], rule exI[of _ r],
           rule exI[of _ x], rule exI[of _ y])
    apply (intro conjI p tv hv a1v a2v xv yv an')
    done
qed

lemma stis_preprocess_Inr:
  assumes "stis_preprocess E g t = Inr (t', x, y, g')"
  shows "stis_rewritten t t'"
proof -
  from assms obtain v tscal where "hget (header t) ''tscal1'' = Inr v" "hval_num v = Inr tscal"
    by (auto simp: stis_preprocess_def ebind_def split: sum.splits)
  with assms show ?thesis
    by (auto simp: stis_preprocess_def ebind_def Let_def stis_rewritten_def comp_def snap_odd)
qed

lemma stis_events_success:
  assumes "stis_events E xd Nx_x1d Ny_x1d traceloc g t = (t', g', None)"
  shows "stis_rewritten t t'"
proof -
  from assms obtain t3 x y where p: "stis_preprocess E g t = Inr (t3, x, y, g')"
    and a: "stis_annotate E xd Nx_x1d Ny_x1d traceloc t3 x y = Inr t'"
    by (auto simp: stis_events_def split: sum.splits prod.splits)
  from stis_preprocess_Inr[OF p] stis_annotate_keeps[OF a] show ?thesis
    by (simp add: stis_rewritten_def)
qed

lemma stis_loop_success:
  "stis_loop E xd Nx_x1d Ny_x1d traceloc g tag = (tag', g', None) \<Longrightarrow>
     list_all2 (\<lambda>t t'. if name t = ''EVENTS'' then stis_rewritten t t' else t' = t) tag tag'"
proof (induction tag arbitrary: g tag' g')
  case Nil
  then show ?case by simp
next
  case (Cons t ts)
  show ?case
  proof (cases "name t = ''EVENTS''")
    case False
    with Cons.prems obtain ts' where r: "stis_loop E xd Nx_x1d Ny_x1d traceloc g ts = (ts', g', None)"
      and t: "tag' = t # ts'"
      by (cases "stis_loop E xd Nx_x1d Ny_x1d traceloc g ts") (auto simp: Let_def)
    from Cons.IH[OF r] False t show ?thesis by simp
  next
    case True
    with Cons.prems obtain t' g1 ts' where e: "stis_events E xd Nx_x1d Ny_x1d traceloc g t = (t', g1, None)"
      and r: "stis_loop E xd Nx_x1d Ny_x1d traceloc g1 ts = (ts', g', None)"
      and t: "tag' = t' # ts'"
      by (cases "stis_events E xd Nx_x1d Ny_x1d traceloc g t";
          cases "stis_loop E xd Nx_x1d Ny_x1d traceloc (fst (snd (stis_events E xd Nx_x1d Ny_x1d traceloc g t))) ts")
         (auto simp: Let_def split: option.splits)
    from Cons.IH[OF r] stis_events_success[OF e] True t show ?thesis by simp
  qed
qed

lemma stis_events_no_key:
  assumes "header t ''tscal1'' = None"
  shows "stis_events E xd Nx_x1d Ny_x1d traceloc g t = (t, g, Some KeyError)"
  using assms by (simp add: stis_events_def stis_preprocess_def hget_def ebind_def)

lemma stis_loop_second:
  assumes "list_all2 (\<lambda>t t'. if name t = ''EVENTS'' then stis_rewritten t t' else t' = t) tag tag'"
    and "\<exists>t \<in> set tag. name t = ''EVENTS''"
  shows "stis_loop E xd Nx_x1d Ny_x1d traceloc g tag' = (tag', g, Some KeyError)"
  using assms
proof (induction rule: list_all2_induct)
  case Nil
  then show ?case by simp
next
  case (Cons t ts t' ts')
  show ?case
  proof (cases "name t = ''EVENTS''")
    case True
    with Cons.hyps have n: "name t' = ''EVENTS''" and h: "header t' ''tscal1'' = None"
      by (simp_all add: stis_rewritten_def)
    show ?thesis
      using n stis_events_no_key[OF h, of E xd Nx_x1d Ny_x1d traceloc g] by simp
  next
    case False
    with Cons.hyps have t: "t' = t" by simp
    from False Cons.prems have "\<exists>t \<in> set ts. name t = ''EVENTS''" by simp
    from Cons.IH[OF this] False t show ?thesis by simp
  qed
qed

text \<open>
  C10. After a call of the STIS annotator that returns, every \<^verbatim>\<open>EVENTS\<close> unit of the
  table holds, row by row, the time multiplied by the time-scale factor and the pixel
  coordinates with every odd value decremented by one, and has lost the time-scale
  keyword; the other units are untouched. A second call on that table stops at the
  first \<^verbatim>\<open>EVENTS\<close> unit with \<^verbatim>\<open>KeyError\<close> and changes nothing more.
\<close>

theorem stis_mutates_in_place:
  assumes "spectrifySTIS E tag x1d traceloc g = (tag', g', None)"
  shows "list_all2 (\<lambda>t t'. if name t = ''EVENTS'' then stis_rewritten t t' else t' = t) tag tag'
       \<and> ((\<exists>t \<in> set tag. name t = ''EVENTS'') \<longrightarrow>
            spectrifySTIS E tag' x1d traceloc g'' = (tag', g'', Some KeyError))"
proof -
  from assms obtain Nx Ny where nx: "hget (primary_header x1d) ''sizaxis1'' = Inr Nx"
    and ny: "hget (primary_header x1d) ''sizaxis2'' = Inr Ny"
    and cfg: "\<not> (length (sci_data x1d) > 1 \<and> traceloc \<noteq> ''stsci'')"
    and lp: "stis_loop E (sci_data x1d) Nx Ny traceloc g tag = (tag', g', None)"
    by (auto simp: spectrifySTIS_def Let_def split: sum.splits if_splits)
  note rel = stis_loop_success[OF lp]
  have "spectrifySTIS E tag' x1d traceloc g'' = (tag', g'', Some KeyError)"
    if "\<exists>t \<in> set tag. name t = ''EVENTS''"
    using stis_loop_second[OF rel that, of E "sci_data x1d" Nx Ny traceloc g''] nx ny cfg
    by (auto simp: spectrifySTIS_def Let_def)
  with rel show ?thesis by blast
qed

theorem stis_mutates_in_place_witness:
  "map (\<lambda>t. (map time (data t), map axis1 (data t), map axis2 (data t), header t ''tscal1''))
       [stis_events0]
     = [([16000, 24000], [3, 6], [4, 7], Some (HFlt (1 / 8000)))]
   \<and> (\<exists>tag' g'. spectrifySTIS ext0 [stis_events0] stis_x1d2 ''stsci'' 7 = (tag', g', None)
         \<and> list_all2 (\<lambda>t t'. if name t = ''EVENTS'' then stis_rewritten t t' else t' = t)
             [stis_events0] tag'
         \<and> map (\<lambda>t. (map time (data t), map axis1 (data t), map axis2 (data t),
                       header t ''tscal1'')) tag'
             = [([2, 3], [2, 6], [4, 6], None)]
         \<and> spectrifySTIS ext0 tag' stis_x1d2 ''stsci'' 99 = (tag', 99, Some KeyError))"
proof -
  have o: "map (\<lambda>t. (map time (data t), map axis1 (data t), map axis2 (data t), header t ''tscal1''))
       [stis_events0]
     = [([16000, 24000], [3, 6], [4, 7], Some (HFlt (1 / 8000)))]"
    by (simp add: stis_events0_def)
  have a: "snd (snd (spectrifySTIS ext0 [stis_events0] stis_x1d2 ''stsci'' 7)) = None"
    by code_simp
  have b: "map (\<lambda>t. (map time (data t), map axis1 (data t), map axis2 (data t), header t ''tscal1''))
       (fst (spectrifySTIS ext0 [stis_events0] stis_x1d2 ''stsci'' 7))
     = [([2, 3], [2, 6], [4, 6], None)]"
    by code_simp
  from a obtain tag' g' where r: "spectrifySTIS ext0 [stis_events0] stis_x1d2 ''stsci'' 7 = (tag', g', None)"
    by (cases "spectrifySTIS ext0 [stis_events0] stis_x1d2 ''stsci'' 7") auto
  have e: "\<exists>t \<in> set [stis_events0]. name t = ''EVENTS''" by (simp add: stis_events0_def)
  from b r have b': "map (\<lambda>t. (map time (data t), map axis1 (data t), map axis2 (data t),
                       header t ''tscal1'')) tag'
             = [([2, 3], [2, 6], [4, 6], None)]"
    by simp
  from stis_mutates_in_place[OF r, of 99] e have
    l: "list_all2 (\<lambda>t t'. if name t = ''EVENTS'' then stis_rewritten t t' else t' = t)
             [stis_events0] tag'"
    and k: "spectrifySTIS ext0 tag' stis_x1d2 ''stsci'' 99 = (tag', 99, Some KeyError)"
    by blast+
  show ?thesis
    by (rule conjI[OF o], rule exI[of _ tag'], rule exI[of _ g']) (intro conjI r l b' k)
qed

subsection \<open>Row count and order\<close>

lemma median_trace_length:
  "median_trace E x y Npix binfac = Inr r \<Longrightarrow> length r = min (length x) (length y)"
  by (auto simp: median_trace_def ebind_Inr Let_def)

lemma lya_trace_length: "lya_trace w y ymax = Inr r \<Longrightarrow> length r = length y"
  by (auto simp: lya_trace_def ebind_Inr Let_def)

lemma cos_fuv_length: "cos_fuv x1d segment yf = Inr r \<Longrightarrow> length r = length yf"
  by (auto simp: cos_fuv_def ebind_Inr Let_def)

lemma random_sample_length: "length (fst (random_sample E n g)) = n"
  by (induction n arbitrary: g) (auto simp: Let_def)

lemma stis_preprocess_lengths:
  assumes "stis_preprocess E g t = Inr (t3, x, y, g')"
  shows "length x = length (data t) \<and> length y = length (data t)
       \<and> length (data t3) = length (data t) \<and> newcols t3 = newcols t \<and> name t3 = name t"
  using assms
  by (auto simp: stis_preprocess_def ebind_Inr Let_def random_sample_length)

subsection \<open>Policies that no branch handles\<close>

lemma cos_events_unbound:
  assumes "traceloc \<notin> {''stsci'', ''median'', ''lya''}" and "seg \<noteq> []"
  shows "cos_events E (HStr seg) (HStr ''FUV'') x1d traceloc t = Inl UnboundLocalError"
  using assms by (simp add: cos_events_def ebind_def Let_def)

lemma cos_loop_fails:
  assumes "\<forall>t. cos_events E segment det x1d traceloc t = Inl e"
    and "\<exists>t \<in> set tag. name t = ''EVENTS''"
  shows "cos_loop E segment det x1d traceloc tag = (tag, Some e)"
  using assms(2)
proof (induction tag)
  case Nil
  then show ?case by simp
next
  case (Cons t ts)
  show ?case
  proof (cases "name t = ''EVENTS''")
    case True
    then show ?thesis using assms(1) by simp
  next
    case False
    with Cons.prems have "\<exists>t \<in> set ts. name t = ''EVENTS''" by simp
    from Cons.IH[OF this] False show ?thesis by simp
  qed
qed

lemma stis_loop_skip:
  assumes "\<forall>p \<in> set pre. name p \<noteq> ''EVENTS''"
  shows "stis_loop E xd Nx_x1d Ny_x1d traceloc g (pre @ rest)
       = (pre @ fst (stis_loop E xd Nx_x1d Ny_x1d traceloc g rest),
          snd (stis_loop E xd Nx_x1d Ny_x1d traceloc g rest))"
  using assms by (induction pre) (simp_all add: Let_def)

lemma stis_single_unbound:
  assumes "traceloc \<notin> {''stsci'', ''median'', ''lya''}"
  shows "\<exists>wave ep oc dqc. stis_single E xd ex wv dq traceloc Nx_tag Ny_tag x y
           = Inr (wave, None, ep, oc, dqc)"
  using assms by (simp add: stis_single_def ebind_def Let_def)

lemma stis_events_unbound:
  assumes tl: "traceloc \<notin> {''stsci'', ''median'', ''lya''}" and one: "length xd = 1"
    and p: "stis_preprocess E g t = Inr (t3, x, y, g')"
    and i: "stis_interp (header t3) Nx_x1d Ny_x1d xd = Inr r"
  shows "stis_events E xd Nx_x1d Ny_x1d traceloc g t = (t3, g', Some UnboundLocalError)"
proof -
  obtain Nx_tag Ny_tag ex wv dq where r: "r = (Nx_tag, Ny_tag, ex, wv, dq)"
    by (cases r) auto
  from stis_single_unbound[OF tl, of E xd ex wv dq Nx_tag Ny_tag x y]
  obtain wave ep oc dqc where
    s: "stis_single E xd ex wv dq traceloc Nx_tag Ny_tag x y = Inr (wave, None, ep, oc, dqc)"
    by blast
  have "stis_annotate E xd Nx_x1d Ny_x1d traceloc t3 x y = Inl UnboundLocalError"
    using i one s by (simp add: stis_annotate_def ebind_def r)
  with p show ?thesis by (simp add: stis_events_def)
qed

text \<open>
  The two rejections of a manual policy on a geometry with several traces: COS raises
  the configuration error at the first \<^verbatim>\<open>EVENTS\<close> unit, STIS stops before its loop with
  the \<^verbatim>\<open>TypeError\<close> of line 98. Neither changes the table.
\<close>

lemma cos_custom_traceloc_rejected:
  assumes "hget (header (hd tag)) ''segment'' = Inr segment"
    and "hget (header (hd tag)) ''detector'' = Inr (HStr ''NUV'')"
    and "\<exists>t \<in> set tag. name t = ''EVENTS''"
    and "traceloc \<noteq> ''stsci''"
  shows "spectrifyCOS E tag x1d traceloc = (tag, Some NotImplementedError)"
proof -
  from assms(3) obtain t0 rest where tag: "tag = t0 # rest" by (cases tag) auto
  have "\<forall>t. cos_events E segment (HStr ''NUV'') x1d traceloc t = Inl NotImplementedError"
    using assms(4) by (simp add: cos_events_def ebind_def Let_def)
  from cos_loop_fails[OF this assms(3)] assms(1,2) show ?thesis
    by (simp add: spectrifyCOS_def tag)
qed

lemma stis_custom_traceloc_rejected:
  assumes "hget (primary_header x1d) ''sizaxis1'' = Inr Nx_x1d"
    and "hget (primary_header x1d) ''sizaxis2'' = Inr Ny_x1d"
    and "1 < length (sci_data x1d)" and "traceloc \<noteq> ''stsci''"
  shows "spectrifySTIS E tag x1d traceloc g = (tag, g, Some TypeError)"
  using assms by (simp add: spectrifySTIS_def Let_def)

text \<open>
  C9. With a policy outside \<^verbatim>\<open>stsci\<close>, \<^verbatim>\<open>median\<close> and \<^verbatim>\<open>lya\<close>, the COS annotator on
  the FUV detector and the STIS annotator with one order raise \<^verbatim>\<open>UnboundLocalError\<close>
  at the first \<^verbatim>\<open>EVENTS\<close> unit, when the list of arrays is built (lines 83 and 167),
  and append no column: COS leaves the table as it was, STIS leaves the unit
  preprocessed. The hypotheses say that the lines before succeed: the keywords read
  are there, the segment name is not empty, and the STIS interpolants can be built.
\<close>

theorem unknown_traceloc_unbound_local:
  "(hget (header (hd tag)) ''segment'' = Inr (HStr seg) \<and> seg \<noteq> []
      \<and> hget (header (hd tag)) ''detector'' = Inr (HStr ''FUV'')
      \<and> (\<exists>t \<in> set tag. name t = ''EVENTS'')
      \<and> traceloc \<notin> {''stsci'', ''median'', ''lya''} \<longrightarrow>
        spectrifyCOS E tag x1d traceloc = (tag, Some UnboundLocalError))
   \<and> (length (sci_data sx1d) = 1
      \<and> hget (primary_header sx1d) ''sizaxis1'' = Inr Nx_x1d
      \<and> hget (primary_header sx1d) ''sizaxis2'' = Inr Ny_x1d
      \<and> traceloc \<notin> {''stsci'', ''median'', ''lya''}
      \<and> (\<forall>p \<in> set pre. name p \<noteq> ''EVENTS'') \<and> name t = ''EVENTS''
      \<and> stis_preprocess E g t = Inr (t3, x, y, g')
      \<and> stis_interp (header t3) Nx_x1d Ny_x1d (sci_data sx1d) = Inr r \<longrightarrow>
        spectrifySTIS E (pre @ t # post) sx1d traceloc g
          = (pre @ t3 # post, g', Some UnboundLocalError)
        \<and> newcols t3 = newcols t)"
proof (rule conjI; rule impI)
  assume a: "hget (header (hd tag)) ''segment'' = Inr (HStr seg) \<and> seg \<noteq> []
      \<and> hget (header (hd tag)) ''detector'' = Inr (HStr ''FUV'')
      \<and> (\<exists>t \<in> set tag. name t = ''EVENTS'')
      \<and> traceloc \<notin> {''stsci'', ''median'', ''lya''}"
  then have ev: "\<exists>t \<in> set tag. name t = ''EVENTS''" by simp
  then obtain t0 rest where tag: "tag = t0 # rest" by (cases tag) auto
  from a have tl: "traceloc \<notin> {''stsci'', ''median'', ''lya''}" and seg: "seg \<noteq> []"
    by blast+
  have "\<forall>t. cos_events E (HStr seg) (HStr ''FUV'') x1d traceloc t = Inl UnboundLocalError"
    using cos_events_unbound[OF tl seg] by blast
  from cos_loop_fails[OF this ev] a
  show "spectrifyCOS E tag x1d traceloc = (tag, Some UnboundLocalError)"
    by (simp add: spectrifyCOS_def tag)
next
  assume a: "length (sci_data sx1d) = 1
      \<and> hget (primary_header sx1d) ''sizaxis1'' = Inr Nx_x1d
      \<and> hget (primary_header sx1d) ''sizaxis2'' = Inr Ny_x1d
      \<and> traceloc \<notin> {''stsci'', ''median'', ''lya''}
      \<and> (\<forall>p \<in> set pre. name p \<noteq> ''EVENTS'') \<and> name t = ''EVENTS''
      \<and> stis_preprocess E g t = Inr (t3, x, y, g')
      \<and> stis_interp (header t3) Nx_x1d Ny_x1d (sci_data sx1d) = Inr r"
  then have tl: "traceloc \<notin> {''stsci'', ''median'', ''lya''}" and one: "length (sci_data sx1d) = 1"
    and p: "stis_preprocess E g t = Inr (t3, x, y, g')"
    and i: "stis_interp (header t3) Nx_x1d Ny_x1d (sci_data sx1d) = Inr r"
    and pre: "\<forall>p \<in> set pre. name p \<noteq> ''EVENTS''" and nm: "name t = ''EVENTS''"
    and nx: "hget (primary_header sx1d) ''sizaxis1'' = Inr Nx_x1d"
    and ny: "hget (primary_header sx1d) ''sizaxis2'' = Inr Ny_x1d"
    by blast+
  note e = stis_events_unbound[OF tl one p i]
  note sk = stis_loop_skip[OF pre, of E "sci_data sx1d" Nx_x1d Ny_x1d traceloc g "t # post"]
  have "stis_loop E (sci_data sx1d) Nx_x1d Ny_x1d traceloc g (t # post)
       = (t3 # post, g', Some UnboundLocalError)"
    using nm e by simp
  with sk have "stis_loop E (sci_data sx1d) Nx_x1d Ny_x1d traceloc g (pre @ t # post)
       = (pre @ t3 # post, g', Some UnboundLocalError)" by simp
  moreover have "newcols t3 = newcols t"
    using stis_preprocess_lengths[OF p] by simp
  ultimately show "spectrifySTIS E (pre @ t # post) sx1d traceloc g
          = (pre @ t3 # post, g', Some UnboundLocalError)
        \<and> newcols t3 = newcols t"
    using nx ny one by (simp add: spectrifySTIS_def Let_def)
qed

lemma stis_interp_ignores_tscal:
  "stis_interp (h(''tscal1'' := None)) Nx_x1d Ny_x1d xd = stis_interp h Nx_x1d Ny_x1d xd"
  by (simp add: stis_interp_def hget_def)

theorem unknown_traceloc_unbound_local_witness:
  "hget (header (hd cos_tag0)) ''segment'' = Inr (HStr ''FUVA'') \<and> ''FUVA'' \<noteq> []
   \<and> hget (header (hd cos_tag0)) ''detector'' = Inr (HStr ''FUV'')
   \<and> (\<exists>t \<in> set cos_tag0. name t = ''EVENTS'')
   \<and> ''centroid'' \<notin> {''stsci'', ''median'', ''lya''}
   \<and> spectrifyCOS ext0 cos_tag0 cos_x1d1 ''centroid'' = (cos_tag0, Some UnboundLocalError)
   \<and> length (sci_data stis_x1d1) = 1
   \<and> hget (primary_header stis_x1d1) ''sizaxis1'' = Inr (HInt 4)
   \<and> hget (primary_header stis_x1d1) ''sizaxis2'' = Inr (HInt 4)
   \<and> name stis_events0 = ''EVENTS''
   \<and> (\<exists>t3 x y g' r.
         stis_preprocess ext0 7 stis_events0 = Inr (t3, x, y, g')
       \<and> stis_interp (header t3) (HInt 4) (HInt 4) (sci_data stis_x1d1) = Inr r
       \<and> spectrifySTIS ext0 ([] @ stis_events0 # []) stis_x1d1 ''centroid'' 7
           = ([] @ t3 # [], g', Some UnboundLocalError)
       \<and> newcols t3 = newcols stis_events0)"
proof -
  have c1: "hget (header (hd cos_tag0)) ''segment'' = Inr (HStr ''FUVA'')"
    and c2: "hget (header (hd cos_tag0)) ''detector'' = Inr (HStr ''FUV'')"
    and c3: "\<exists>t \<in> set cos_tag0. name t = ''EVENTS''"
    by (simp_all add: cos_tag0_def hget_def)
  have c4: "''centroid'' \<notin> {''stsci'', ''median'', ''lya''}" by simp
  have c5: "''FUVA'' \<noteq> []" by simp
  have s1: "length (sci_data stis_x1d1) = 1"
    and s2: "hget (primary_header stis_x1d1) ''sizaxis1'' = Inr (HInt 4)"
    and s3: "hget (primary_header stis_x1d1) ''sizaxis2'' = Inr (HInt 4)"
    and s4: "name stis_events0 = ''EVENTS''"
    by (simp_all add: stis_x1d1_def stis_events0_def hget_def)
  have k: "hget (header stis_events0) ''tscal1'' = Inr (HFlt (1 / 8000))"
    by (simp add: stis_events0_def hget_def)
  have v: "hval_num (HFlt (1 / 8000)) = Inr (1 / 8000)" by simp
  obtain t3 x y g' where p: "stis_preprocess ext0 7 stis_events0 = Inr (t3, x, y, g')"
    using preprocess_returns[OF k v, of ext0 7] by auto
  from stis_preprocess_Inr[OF p] have h: "header t3 = (header stis_events0)(''tscal1'' := None)"
    by (simp add: stis_rewritten_def)
  have "stis_interp (header stis_events0) (HInt 4) (HInt 4) (sci_data stis_x1d1)
      = Inr (HInt 8, HInt 8, [hd stis_ex0], [hd stis_wv0], [hd stis_dq0])"
    by code_simp
  then have i: "stis_interp (header t3) (HInt 4) (HInt 4) (sci_data stis_x1d1)
      = Inr (HInt 8, HInt 8, [hd stis_ex0], [hd stis_wv0], [hd stis_dq0])"
    unfolding h stis_interp_ignores_tscal .
  have pre: "\<forall>p \<in> set ([] :: stis_event hdu list). name p \<noteq> ''EVENTS''" by simp
  note t = unknown_traceloc_unbound_local[where ?tag = cos_tag0 and ?seg = "''FUVA''"
      and ?traceloc = "''centroid''" and ?E = ext0 and ?x1d = cos_x1d1
      and ?sx1d = stis_x1d1 and ?Nx_x1d = "HInt 4" and ?Ny_x1d = "HInt 4"
      and ?pre = "[]" and ?t = stis_events0 and ?g = 7 and ?t3.0 = t3 and ?x = x and ?y = y
      and ?g' = g' and ?r = "(HInt 8, HInt 8, [hd stis_ex0], [hd stis_wv0], [hd stis_dq0])"
      and ?post = "[]"]
  have A: "spectrifyCOS ext0 cos_tag0 cos_x1d1 ''centroid'' = (cos_tag0, Some UnboundLocalError)"
    by (rule t[THEN conjunct1, rule_format]) (intro conjI c1 c2 c3 c4 c5)
  have B: "spectrifySTIS ext0 ([] @ stis_events0 # []) stis_x1d1 ''centroid'' 7
           = ([] @ t3 # [], g', Some UnboundLocalError)
        \<and> newcols t3 = newcols stis_events0"
    by (rule t[THEN conjunct2, rule_format]) (intro conjI s1 s2 s3 s4 c4 pre p i)
  show ?thesis
    apply (intro conjI c1 c2 c3 c4 c5 A s1 s2 s3 s4)
    apply (rule exI[of _ t3], rule exI[of _ x], rule exI[of _ y], rule exI[of _ g'],
           rule exI[of _ "(HInt 8, HInt 8, [hd stis_ex0], [hd stis_wv0], [hd stis_dq0])"])
    apply (intro conjI p i B[THEN conjunct1] B[THEN conjunct2])
    done
qed

end
